(* ===== verification/Prelude.thy ===== *)
theory Prelude
  imports Main "HOL-Library.Sublist"
begin

text \<open>
  Shared vocabulary of the development: the Python string operations that
  \<^verbatim>\<open>src/app.py\<close> uses (\<^verbatim>\<open>str.lower\<close>, \<^verbatim>\<open>str.capitalize\<close>, the
  substring test \<^verbatim>\<open>in\<close>, \<^verbatim>\<open>str.join\<close>, decimal \<^verbatim>\<open>str(int)\<close>), the
  Python error type, and the lemmas on them that the component theories share.
  Strings are \<open>char list\<close>; characters are bytes, and case mapping is the ASCII
  case mapping (\<^verbatim>\<open>str.lower\<close> restricted to ASCII text).
\<close>

named_theorems py_simps \<open>rewrite rules for the Python string helpers\<close>

datatype py_error =
    ValueError string
  | PdfError string

subsection \<open>Case mapping\<close>

definition lower_char :: "char \<Rightarrow> char" where
  "lower_char c =
     (let n = of_char c :: nat in if 65 \<le> n \<and> n \<le> 90 then char_of (n + 32) else c)"

definition upper_char :: "char \<Rightarrow> char" where
  "upper_char c =
     (let n = of_char c :: nat in if 97 \<le> n \<and> n \<le> 122 then char_of (n - 32) else c)"

definition py_lower :: "string \<Rightarrow> string" where
  "py_lower s = map lower_char s"

fun py_capitalize :: "string \<Rightarrow> string" where
  "py_capitalize [] = []"
| "py_capitalize (c # cs) = upper_char c # py_lower cs"

subsection \<open>Substring test and join\<close>

text \<open>\<^verbatim>\<open>needle in haystack\<close> for strings: a left-to-right scan for a position
  where the needle is a prefix.\<close>

fun starts_with :: "string \<Rightarrow> string \<Rightarrow> bool" where
  "starts_with [] _ = True"
| "starts_with (_ # _) [] = False"
| "starts_with (x # xs) (y # ys) = (x = y \<and> starts_with xs ys)"

fun py_in :: "string \<Rightarrow> string \<Rightarrow> bool" where
  "py_in n [] = (n = [])"
| "py_in n (c # cs) = (starts_with n (c # cs) \<or> py_in n cs)"

text \<open>\<^verbatim>\<open>sep.join(xs)\<close>.\<close>

fun py_join :: "string \<Rightarrow> string list \<Rightarrow> string" where
  "py_join sep [] = []"
| "py_join sep [x] = x"
| "py_join sep (x # y # xs) = x @ sep @ py_join sep (y # xs)"

text \<open>\<^verbatim>\<open>s.split(sep)\<close> for a one-character separator: the pieces between
  separators, empty pieces included (\<^verbatim>\<open>''.split(' ') == ['']\<close>).\<close>

fun py_split_sep :: "char \<Rightarrow> string \<Rightarrow> string list" where
  "py_split_sep c [] = [[]]"
| "py_split_sep c (x # xs) =
     (let r = py_split_sep c xs in if x = c then [] # r else (x # hd r) # tl r)"

text \<open>\<^verbatim>\<open>str(n)\<close> for a Python int.\<close>

fun digits_of :: "nat \<Rightarrow> string" where
  "digits_of n =
     (if n < 10 then [char_of (48 + n)] else digits_of (n div 10) @ [char_of (48 + n mod 10)])"

definition py_str_int :: "int \<Rightarrow> string" where
  "py_str_int i = (if i < 0 then CHR ''-'' # digits_of (nat (- i)) else digits_of (nat i))"

declare digits_of.simps [simp del]

subsection \<open>Lemmas\<close>

lemma starts_with_prefix [py_simps]: "starts_with n h = prefix n h"
  by (induction n h rule: starts_with.induct) auto

lemma py_in_sublist [py_simps]: "py_in n h = sublist n h"
  by (induction h) (auto simp: starts_with_prefix sublist_Cons_right)

lemma py_lower_append [simp, py_simps]: "py_lower (xs @ ys) = py_lower xs @ py_lower ys"
  by (simp add: py_lower_def)

lemma py_lower_Cons [simp, py_simps]: "py_lower (c # cs) = lower_char c # py_lower cs"
  by (simp add: py_lower_def)

lemma py_lower_Nil [simp, py_simps]: "py_lower [] = []"
  by (simp add: py_lower_def)

lemma length_py_lower [simp]: "length (py_lower s) = length s"
  by (simp add: py_lower_def)

lemma lower_char_idem [simp]: "lower_char (lower_char c) = lower_char c"
  by (simp add: lower_char_def Let_def)

lemma py_lower_idem [simp]: "py_lower (py_lower s) = py_lower s"
  by (simp add: py_lower_def comp_def)

lemma py_split_sep_nonempty [simp]: "py_split_sep c s \<noteq> []"
  by (induction s) (auto simp: Let_def)

lemma py_split_sep_append_sep:
  "c \<notin> set w \<Longrightarrow> py_split_sep c (w @ c # s) = w # py_split_sep c s"
  by (induction w) (auto simp: Let_def)

lemma py_split_sep_no_sep: "c \<notin> set w \<Longrightarrow> py_split_sep c w = [w]"
  by (induction w) (auto simp: Let_def)

text \<open>Joining with a one-character separator and splitting on it again gives back
  a non-empty list of pieces that do not contain the separator.\<close>

lemma py_split_sep_join:
  "xs \<noteq> [] \<Longrightarrow> \<forall>w \<in> set xs. c \<notin> set w \<Longrightarrow> py_split_sep c (py_join [c] xs) = xs"
  by (induction "[c]" xs rule: py_join.induct) (auto simp: py_split_sep_append_sep py_split_sep_no_sep)

lemma py_in_append_right: "py_in n h \<Longrightarrow> py_in n (h @ t)"
  by (simp add: py_in_sublist sublist_append)

lemma py_in_append_left: "py_in n t \<Longrightarrow> py_in n (h @ t)"
  by (simp add: py_in_sublist sublist_append)

lemma concat_map_if_singleton:
  "concat (map (\<lambda>x. if P x then [f x] else []) xs) = map f (filter P xs)"
  by (induction xs) auto

end
