(* ===== verification/Structure.thy ===== *)
theory Structure
  imports Prelude
begin

text \<open>
  The two keyword-presence analyzers of \<^verbatim>\<open>src/app.py\<close>:
  \<^verbatim>\<open>analyze_resume_structure\<close> (the section catalogue, a dict iterated in
  insertion order, so an association list here; the \<^verbatim>\<open>for\<close> loop is
  \<open>structure_loop\<close> with the running score and feedback list as accumulators) and
  \<^verbatim>\<open>analyze_certifications\<close>.  The lemmas give the score and the feedback of the
  structure analysis in closed form, its bounds, its monotonicity under appending
  text, the exact gain of adding a missing section name, and the case-insensitivity
  of both analyzers.
\<close>

subsection \<open>Section catalogue and feedback text\<close>

definition sections :: "(string \<times> int) list" where
  "sections =
     [(''contact information'', 10), (''summary'', 15), (''education'', 20),
      (''experience'', 30), (''skills'', 15), (''achievements'', 10)]"

definition missing_header :: "string \<Rightarrow> string" where
  "missing_header s =
     ''Missing '' @ [CHR 0x27] @ py_capitalize s @ [CHR 0x27] @
     '' section. This section is important because:''"

text \<open>The \<^verbatim>\<open>if/elif\<close> chain that appends the explanation line; a name outside the
  chain appends nothing.\<close>

definition section_reason :: "string \<Rightarrow> string list" where
  "section_reason s =
     (if s = ''contact information'' then [''  - It allows employers to easily reach you.'']
      else if s = ''summary'' then
        [''  - It provides a quick overview of your qualifications and career objectives.'']
      else if s = ''education'' then
        [''  - It showcases your academic background and qualifications.'']
      else if s = ''experience'' then
        [''  - It demonstrates your relevant work history and accomplishments.'']
      else if s = ''skills'' then [''  - It highlights your key abilities and competencies.'']
      else if s = ''achievements'' then
        [''  - It emphasizes your notable accomplishments and recognition.'']
      else [])"

definition missing_block :: "string \<Rightarrow> string list" where
  "missing_block s = missing_header s # section_reason s"

subsection \<open>The structure analysis\<close>

fun structure_loop ::
  "string \<Rightarrow> (string \<times> int) list \<Rightarrow> int \<Rightarrow> string list \<Rightarrow> int \<times> string list" where
  "structure_loop t [] score feedback = (score, feedback)"
| "structure_loop t ((s, p) # ps) score feedback =
     (if py_in s (py_lower t) then structure_loop t ps (score + p) feedback
      else structure_loop t ps score (feedback @ missing_block s))"

definition analyze_resume_structure :: "string \<Rightarrow> int \<times> string list" where
  "analyze_resume_structure resume_text = structure_loop resume_text sections 0 []"

subsection \<open>The certification analysis\<close>

definition cert_block :: "string list" where
  "cert_block =
     [''Consider adding relevant certifications:'',
      ''  - Certifications demonstrate specialized knowledge and skills.'',
      ''  - They can set you apart from other candidates.'',
      ''  - Look for industry-specific certifications that align with the job requirements.'']"

definition analyze_certifications :: "string \<Rightarrow> int \<times> string list" where
  "analyze_certifications resume_text =
     (if py_in ''certification'' (py_lower resume_text) \<or> py_in ''certified'' (py_lower resume_text)
      then (10, []) else (0, cert_block))"

subsection \<open>Closed form of the loop\<close>

definition present_points :: "string \<Rightarrow> (string \<times> int) list \<Rightarrow> int" where
  "present_points t ps = sum_list [p. (s, p) \<leftarrow> ps, py_in s (py_lower t)]"

definition missing_feedback :: "string \<Rightarrow> (string \<times> int) list \<Rightarrow> string list" where
  "missing_feedback t ps = concat [missing_block s. (s, p) \<leftarrow> ps, \<not> py_in s (py_lower t)]"

lemma structure_loop_closed:
  "structure_loop t ps score feedback =
     (score + present_points t ps, feedback @ missing_feedback t ps)"
  by (induction t ps score feedback rule: structure_loop.induct)
     (auto simp: present_points_def missing_feedback_def)

lemma present_points_nonneg:
  "\<forall>(s, p) \<in> set ps. 0 \<le> p \<Longrightarrow> 0 \<le> present_points t ps"
  by (induction ps) (auto simp: present_points_def)

lemma present_points_le:
  "\<forall>(s, p) \<in> set ps. 0 \<le> p \<Longrightarrow> present_points t ps \<le> sum_list (map snd ps)"
  by (induction ps) (auto simp: present_points_def)

lemma present_points_full:
  "\<forall>(s, p) \<in> set ps. 0 < p \<Longrightarrow>
     present_points t ps = sum_list (map snd ps) \<longleftrightarrow> (\<forall>(s, p) \<in> set ps. py_in s (py_lower t))"
proof (induction ps)
  case Nil
  then show ?case by (simp add: present_points_def)
next
  case (Cons a ps)
  obtain s p where a: "a = (s, p)" by fastforce
  from Cons.prems have "\<forall>(s, p) \<in> set ps. 0 \<le> p" by auto
  then have le: "present_points t ps \<le> sum_list (map snd ps)" by (rule present_points_le)
  from Cons.prems a have "0 < p" by auto
  with Cons le a show ?case by (auto simp: present_points_def)
qed

lemma missing_feedback_Nil_iff:
  "missing_feedback t ps = [] \<longleftrightarrow> (\<forall>(s, p) \<in> set ps. py_in s (py_lower t))"
  by (induction ps) (auto simp: missing_feedback_def missing_block_def)

lemma present_points_mono:
  "present_points t ps \<le> present_points (t @ u) ps" if "\<forall>(s, p) \<in> set ps. 0 \<le> p"
  using that by (induction ps) (auto simp: present_points_def py_in_append_right)

lemma sections_points_pos: "\<forall>(s, p) \<in> set sections. 0 < p"
  by (simp add: sections_def)

lemma sections_total: "sum_list (map snd sections) = 100"
  by (simp add: sections_def)

lemmas structure_facts =
  structure_loop_closed analyze_resume_structure_def sections_total

subsection \<open>Section names and appended text\<close>

text \<open>No catalogue name straddles a blank followed by a catalogue name: checked on
  the catalogue by evaluation.\<close>

lemma section_names_no_straddle_check:
  "list_all (\<lambda>(s', x). list_all (\<lambda>(s, y).
     list_all (\<lambda>k. \<not> prefix (drop k s') (CHR '' '' # s)) [1..<length s'] \<and>
     sublist s' (CHR '' '' # s) = (s' = s) \<and> py_lower s = s) sections) sections"
  by code_simp

lemma section_pair_facts:
  assumes "(s', x) \<in> set sections" "(s, y) \<in> set sections"
  shows "(\<forall>k \<in> set [1..<length s']. \<not> prefix (drop k s') (CHR '' '' # s)) \<and>
         sublist s' (CHR '' '' # s) = (s' = s) \<and> py_lower s = s"
proof -
  have "\<forall>(s', x) \<in> set sections. \<forall>(s, y) \<in> set sections.
     (\<forall>k \<in> set [1..<length s']. \<not> prefix (drop k s') (CHR '' '' # s)) \<and>
     sublist s' (CHR '' '' # s) = (s' = s) \<and> py_lower s = s"
    using section_names_no_straddle_check by (simp only: list_all_iff)
  with assms show ?thesis by fastforce
qed

lemma section_names_join:
  assumes "(s', x) \<in> set sections" "(s, y) \<in> set sections"
  shows "sublist s' (T @ CHR '' '' # s) \<longleftrightarrow> sublist s' T \<or> s' = s"
proof
  have chk: "\<not> prefix (drop k s') (CHR '' '' # s)" if "0 < k" "k < length s'" for k
  proof -
    from that have "k \<in> set [1..<length s']" by simp
    with section_pair_facts [OF assms] show ?thesis by blast
  qed
  from section_pair_facts [OF assms] have sub: "sublist s' (CHR '' '' # s) = (s' = s)" by blast
  assume "sublist s' (T @ CHR '' '' # s)"
  then consider "sublist s' T" | "sublist s' (CHR '' '' # s)"
    | a b where "s' = a @ b" "suffix a T" "prefix b (CHR '' '' # s)"
    unfolding sublist_append by blast
  then show "sublist s' T \<or> s' = s"
  proof cases
    case 1
    then show ?thesis ..
  next
    case 2
    with sub show ?thesis by simp
  next
    case 3
    show ?thesis
    proof (cases "a = []")
      case True
      with \<open>s' = a @ b\<close> \<open>prefix b (CHR '' '' # s)\<close> have "sublist s' (CHR '' '' # s)"
        by (simp add: prefix_imp_sublist)
      with sub show ?thesis by simp
    next
      case a: False
      show ?thesis
      proof (cases "b = []")
        case True
        with \<open>s' = a @ b\<close> \<open>suffix a T\<close> have "suffix s' T" by simp
        then show ?thesis by (simp add: suffix_imp_sublist)
      next
        case False
        from a False \<open>s' = a @ b\<close>
        have "0 < length a" "length a < length s'" "drop (length a) s' = b" by simp_all
        with chk \<open>prefix b (CHR '' '' # s)\<close> show ?thesis by blast
      qed
    qed
  qed
next
  assume "sublist s' T \<or> s' = s"
  then show "sublist s' (T @ CHR '' '' # s)"
  proof
    assume "sublist s' T"
    then show ?thesis by (simp add: sublist_append)
  next
    assume "s' = s"
    then show ?thesis using sublist_append_leftI [of s "T @ [CHR '' '']"] by simp
  qed
qed

lemma sum_list_pairs_cong:
  "\<forall>(s, p) \<in> set ps. P s = Q s \<Longrightarrow>
     sum_list [p. (s, p) \<leftarrow> ps, P s] = sum_list [p. (s, p) \<leftarrow> ps, Q s]"
  by (induction ps) auto

lemma sum_list_pairs_insert:
  fixes ps :: "('a \<times> 'b::comm_monoid_add) list"
  assumes "distinct (map fst ps)" "(s, p) \<in> set ps" "\<not> P s"
  shows "sum_list [p'. (s', p') \<leftarrow> ps, P s' \<or> s' = s] = sum_list [p'. (s', p') \<leftarrow> ps, P s'] + p"
  using assms
proof (induction ps)
  case Nil
  then show ?case by simp
next
  case (Cons a ps)
  obtain s0 p0 where a: "a = (s0, p0)" by fastforce
  show ?case
  proof (cases "s0 = s")
    case True
    with Cons.prems a have notin: "\<And>p'. (s, p') \<notin> set ps" by force
    from Cons.prems a True have "p0 = p" by (auto simp: image_iff)
    have "sum_list [p'. (s', p') \<leftarrow> ps, P s' \<or> s' = s] = sum_list [p'. (s', p') \<leftarrow> ps, P s']"
      using notin by (intro sum_list_pairs_cong) blast
    with True a \<open>p0 = p\<close> Cons.prems show ?thesis by (simp add: add.commute)
  next
    case False
    with Cons.prems a have "(s, p) \<in> set ps" "distinct (map fst ps)" by auto
    with Cons.IH Cons.prems False a show ?thesis by (simp add: add.assoc)
  qed
qed

lemma sections_distinct: "distinct (map fst sections)"
  by (simp add: sections_def)


lemma structure_score_range:
  "0 \<le> fst (analyze_resume_structure t) \<and> fst (analyze_resume_structure t) \<le> 100"
proof -
  have pos: "\<forall>(s, p) \<in> set sections. 0 \<le> p" using sections_points_pos by fastforce
  show ?thesis
    using present_points_nonneg [OF pos, of t] present_points_le [OF pos, of t]
    by (simp add: structure_facts)
qed

lemma present_points_zero:
  "\<forall>(s, p) \<in> set ps. 0 < p \<Longrightarrow>
     present_points t ps = 0 \<longleftrightarrow> (\<forall>(s, p) \<in> set ps. \<not> py_in s (py_lower t))"
proof (induction ps)
  case Nil
  then show ?case by (simp add: present_points_def)
next
  case (Cons a ps)
  obtain s p where a: "a = (s, p)" by fastforce
  from Cons.prems have "\<forall>(s, p) \<in> set ps. 0 \<le> p" by auto
  then have "0 \<le> present_points t ps" by (rule present_points_nonneg)
  moreover from Cons.prems a have "0 < p" by auto
  ultimately show ?case using Cons a by (auto simp: present_points_def)
qed

text \<open>The structure score is maximal exactly when every catalogue name occurs, and
  zero exactly when none does.\<close>

lemma structure_score_extremes:
  "(fst (analyze_resume_structure t) = 100 \<longleftrightarrow> (\<forall>(s, p) \<in> set sections. sublist s (py_lower t))) \<and>
   (fst (analyze_resume_structure t) = 0 \<longleftrightarrow> (\<forall>(s, p) \<in> set sections. \<not> sublist s (py_lower t)))"
  using present_points_full [OF sections_points_pos, of t] present_points_zero [OF sections_points_pos, of t]
  by (simp add: structure_facts py_in_sublist)

subsection \<open>Properties of the structure analysis\<close>

text \<open>C1: the structure score is the sum of the points of the catalogue sections
  whose name occurs in the lowercased resume, and the feedback is, in catalogue
  order, the header and explanation of every section that does not occur.\<close>

theorem analyze_resume_structure_spec:
  "analyze_resume_structure t =
     (sum_list [p. (s, p) \<leftarrow> sections, sublist s (py_lower t)],
      concat [missing_block s. (s, p) \<leftarrow> sections, \<not> sublist s (py_lower t)])"
  by (simp add: structure_facts present_points_def missing_feedback_def py_in_sublist)

text \<open>C2: the structure score lies between 0 and 100, and it is 100 exactly when the
  analysis gives no feedback.\<close>

theorem analyze_resume_structure_bounds:
  "0 \<le> fst (analyze_resume_structure t) \<and> fst (analyze_resume_structure t) \<le> 100 \<and>
   (fst (analyze_resume_structure t) = 100 \<longleftrightarrow> snd (analyze_resume_structure t) = [])"
proof -
  have "present_points t sections = 100 \<longleftrightarrow> missing_feedback t sections = []"
    using present_points_full [OF sections_points_pos] by (simp add: sections_total missing_feedback_Nil_iff)
  with structure_score_range [of t] show ?thesis by (simp add: structure_facts)
qed

text \<open>C3: appending a blank and the name of a catalogue section that the resume
  lacks raises the structure score by exactly that section's points.\<close>

theorem analyze_resume_structure_add_section:
  assumes "(s, p) \<in> set sections" "\<not> py_in s (py_lower t)"
  shows "fst (analyze_resume_structure (t @ CHR '' '' # s)) = fst (analyze_resume_structure t) + p"
proof -
  have low: "py_lower (t @ CHR '' '' # s) = py_lower t @ CHR '' '' # s"
    using section_pair_facts [OF assms(1) assms(1)] by (simp add: lower_char_def)
  have "present_points (t @ CHR '' '' # s) sections =
        sum_list [p'. (s', p') \<leftarrow> sections, py_in s' (py_lower t) \<or> s' = s]"
    unfolding present_points_def low
    by (intro sum_list_pairs_cong)
       (auto simp: py_in_sublist section_names_join [OF _ assms(1)])
  also have "\<dots> = present_points t sections + p"
    unfolding present_points_def
    by (rule sum_list_pairs_insert [where P = "\<lambda>s'. py_in s' (py_lower t)",
                                     OF sections_distinct assms])
  finally show ?thesis by (simp add: structure_facts)
qed

theorem analyze_resume_structure_add_section_witness:
  "(''summary'', 15) \<in> set sections \<and>
   \<not> py_in ''summary'' (py_lower ''Experience: built systems. Skills: coding.'') \<and>
   fst (analyze_resume_structure (''Experience: built systems. Skills: coding.'' @ CHR '' '' # ''summary'')) =
   fst (analyze_resume_structure ''Experience: built systems. Skills: coding.'') + 15"
proof -
  have h1: "(''summary'', 15) \<in> set sections" by (simp add: sections_def)
  have h2: "\<not> py_in ''summary'' (py_lower ''Experience: built systems. Skills: coding.'')"
    by code_simp
  show ?thesis by (intro conjI h1 h2 analyze_resume_structure_add_section [OF h1 h2])
qed

text \<open>C4: appending text to a resume never lowers its structure score.\<close>

theorem analyze_resume_structure_mono:
  "fst (analyze_resume_structure t) \<le> fst (analyze_resume_structure (t @ u))"
proof -
  have "\<forall>(s, p) \<in> set sections. 0 \<le> p" using sections_points_pos by fastforce
  then show ?thesis by (simp add: structure_facts present_points_mono)
qed

text \<open>C5: both keyword-presence analyzers are case-insensitive: resumes with the
  same lowercase form get the same structure and certification results.\<close>

theorem analyzers_case_insensitive:
  assumes "py_lower t1 = py_lower t2"
  shows "analyze_resume_structure t1 = analyze_resume_structure t2 \<and>
         analyze_certifications t1 = analyze_certifications t2"
  unfolding analyze_resume_structure_def structure_loop_closed present_points_def
    missing_feedback_def analyze_certifications_def
  using assms by simp

theorem analyzers_case_insensitive_witness:
  "py_lower ''SKILLS and Certified'' = py_lower ''skills AND certified'' \<and>
   analyze_resume_structure ''SKILLS and Certified'' = analyze_resume_structure ''skills AND certified'' \<and>
   analyze_certifications ''SKILLS and Certified'' = analyze_certifications ''skills AND certified''"
proof -
  have h: "py_lower ''SKILLS and Certified'' = py_lower ''skills AND certified''" by code_simp
  show ?thesis using analyzers_case_insensitive [OF h] h by (intro conjI) blast+
qed

lemma section_reason_catalogue: "\<forall>(s, p) \<in> set sections. length (section_reason s) = 1"
  by (simp add: sections_def section_reason_def)

lemma length_missing_feedback:
  "\<forall>(s, p) \<in> set ps. length (section_reason s) = 1 \<Longrightarrow>
   length (missing_feedback t ps) = 2 * length (filter (\<lambda>(s, p). \<not> py_in s (py_lower t)) ps)"
  by (induction ps) (auto simp: missing_feedback_def missing_block_def)

text \<open>C23: the structure feedback has exactly two lines, the header and the
  explanation, for every catalogue section missing from the lowercased resume.\<close>

theorem analyze_resume_structure_feedback_length:
  "length (snd (analyze_resume_structure t)) =
     2 * length (filter (\<lambda>(s, p). \<not> sublist s (py_lower t)) sections)"
  using length_missing_feedback [OF section_reason_catalogue, of t]
  by (simp add: structure_facts py_in_sublist)

end
