(* ===== verification/Nlp.thy ===== *)
theory Nlp
  imports Prelude
begin

text \<open>
  The linguistic model \<^verbatim>\<open>nlp = spacy.load("en_core_web_sm")\<close> of
  \<^verbatim>\<open>src/app.py\<close> is an external, read-only capability.  It is modelled as a
  parameter of type \<open>nlp\<close>: a function from a string to a document, the document
  being the list of its sentences (\<^verbatim>\<open>doc.sents\<close>) and each sentence the list of
  its tokens.  A token carries exactly the attributes the program reads:
  \<^verbatim>\<open>text\<close> (as \<open>tok_text\<close>), \<^verbatim>\<open>whitespace_\<close> (as \<open>tok_ws\<close>), \<^verbatim>\<open>lemma_\<close> (as \<open>tok_lemma\<close>), \<^verbatim>\<open>pos_\<close> (as \<open>tok_pos\<close>),
  \<^verbatim>\<open>is_stop\<close> and \<^verbatim>\<open>is_alpha\<close>.  Every theorem about a component that calls the
  model holds for every such function; the few that need spaCy's round-trip
  guarantee (the tokens with their trailing whitespace give back the text) assume it
  as \<open>nlp_lossless\<close> for the input at hand.

  The theory also holds \<open>toy_nlp\<close>, a small executable tagger (whitespace and
  punctuation tokenizer, a stop-word list, identity lemmatizer) used only to
  instantiate the theorems at concrete inputs.
\<close>

datatype upos =
    ADJ | ADP | ADV | AUX | CCONJ | DET | INTJ | NOUN | NUM | PART | PRON
  | PROPN | PUNCT | SCONJ | SYM | VERB | X | SPACE

record token =
  tok_text :: string
  tok_ws :: string
  tok_lemma :: string
  tok_pos :: upos
  is_stop :: bool
  is_alpha :: bool

type_synonym doc = "token list list"
type_synonym nlp = "string \<Rightarrow> doc"

text \<open>Iterating a \<^verbatim>\<open>Doc\<close> yields its tokens in order.\<close>

definition doc_tokens :: "doc \<Rightarrow> token list" where
  "doc_tokens d = concat d"

text \<open>\<^verbatim>\<open>str(span)\<close>: the text of each token followed by its trailing whitespace,
  except the last one's.\<close>

fun span_text :: "token list \<Rightarrow> string" where
  "span_text [] = []"
| "span_text [t] = tok_text t"
| "span_text (t # u # ts) = tok_text t @ tok_ws t @ span_text (u # ts)"

text \<open>spaCy's round-trip guarantee on one input: the token texts with their
  trailing whitespace concatenate back to the text.\<close>

definition text_with_ws :: "token \<Rightarrow> string" where
  "text_with_ws tk = tok_text tk @ tok_ws tk"

definition nlp_lossless :: "nlp \<Rightarrow> string \<Rightarrow> bool" where
  "nlp_lossless nlp t \<longleftrightarrow> concat (map text_with_ws (doc_tokens (nlp t))) = t"

subsection \<open>A concrete tagger for examples\<close>

definition toy_punct :: "char \<Rightarrow> bool" where
  "toy_punct c = (c \<in> set ''.,:;!?'')"

definition toy_letter :: "char \<Rightarrow> bool" where
  "toy_letter c = (let n = of_char c :: nat in (65 \<le> n \<and> n \<le> 90) \<or> (97 \<le> n \<and> n \<le> 122))"

definition toy_emit :: "string \<Rightarrow> string \<Rightarrow> (string \<times> string) list" where
  "toy_emit cur ws = (if cur = [] then [] else [(rev cur, ws)])"

fun toy_lex :: "string \<Rightarrow> string \<Rightarrow> (string \<times> string) list" where
  "toy_lex cur [] = toy_emit cur []"
| "toy_lex cur (c # cs) =
     (if c = CHR '' '' then toy_emit cur '' '' @ toy_lex [] cs
      else if toy_punct c then
        toy_emit cur [] @
        (if cs \<noteq> [] \<and> hd cs = CHR '' '' then ([c], '' '') # toy_lex [] (tl cs)
         else ([c], []) # toy_lex [] cs)
      else toy_lex (c # cur) cs)"

definition toy_stop_words :: "string list" where
  "toy_stop_words =
     [''a'', ''an'', ''and'', ''the'', ''for'', ''with'', ''of'', ''in'', ''to'', ''on'',
      ''i'', ''my'', ''is'', ''are'', ''was'', ''be'', ''or'']"

definition toy_verbs :: "string list" where
  "toy_verbs = [''built'', ''looking'', ''led'', ''managed'', ''developed'', ''build'']"

definition toy_pos :: "string \<Rightarrow> upos" where
  "toy_pos w =
     (if w \<noteq> [] \<and> list_all toy_punct w then PUNCT
      else if py_lower w \<in> set toy_stop_words then ADP
      else if py_lower w \<in> set toy_verbs then VERB
      else NOUN)"

definition toy_token :: "string \<times> string \<Rightarrow> token" where
  "toy_token p =
     \<lparr>tok_text = fst p, tok_ws = snd p, tok_lemma = py_lower (fst p),
      tok_pos = toy_pos (fst p), is_stop = py_lower (fst p) \<in> set toy_stop_words,
      is_alpha = (fst p \<noteq> [] \<and> list_all toy_letter (fst p))\<rparr>"

fun toy_sents :: "token list \<Rightarrow> token list \<Rightarrow> doc" where
  "toy_sents acc [] = (if acc = [] then [] else [rev acc])"
| "toy_sents acc (t # ts) =
     (if tok_text t \<in> {''.'', ''!'', ''?''} then rev (t # acc) # toy_sents [] ts
      else toy_sents (t # acc) ts)"

definition toy_nlp :: nlp where
  "toy_nlp s = toy_sents [] (map toy_token (toy_lex [] s))"

lemma span_text_prefix: "prefix (span_text sent) (concat (map text_with_ws sent))"
  by (induction sent rule: span_text.induct) (auto simp: text_with_ws_def)

lemma sentence_sublist_doc:
  "sent \<in> set d \<Longrightarrow> sublist (concat (map text_with_ws sent)) (concat (map text_with_ws (doc_tokens d)))"
proof -
  assume "sent \<in> set d"
  then obtain d1 d2 where "d = d1 @ sent # d2" by (meson split_list)
  then show ?thesis by (auto simp: doc_tokens_def)
qed

end
