(* ===== verification/Grammar.thy ===== *)
theory Grammar
  imports Nlp
begin

text \<open>
  \<^verbatim>\<open>analyze_grammar\<close> of \<^verbatim>\<open>src/app.py\<close>: the loop over
  \<^verbatim>\<open>doc.sents\<close> is \<open>grammar_loop\<close>, whose accumulator is the list
  \<^verbatim>\<open>grammar_issues\<close>; the result keeps at most the first three issues.  The
  lemmas give the result in closed form (the first three sentences of more than
  forty tokens, in document order), its score and length bounds, and the exact
  forty-token threshold.
\<close>

definition grammar_header :: string where
  "grammar_header = ''Grammar and readability could be improved:''"

definition long_sentence_line :: "token list \<Rightarrow> string" where
  "long_sentence_line sent =
     ''Consider breaking up this long sentence: '' @ [CHR 0x27] @ span_text sent @ [CHR 0x27]"

fun grammar_loop :: "token list list \<Rightarrow> string list \<Rightarrow> string list" where
  "grammar_loop [] grammar_issues = grammar_issues"
| "grammar_loop (sent # sents) grammar_issues =
     grammar_loop sents
       (if length sent > 40 then grammar_issues @ [long_sentence_line sent] else grammar_issues)"

definition analyze_grammar :: "nlp \<Rightarrow> string \<Rightarrow> int \<times> string list" where
  "analyze_grammar nlp resume_text =
     (let grammar_issues = grammar_loop (nlp resume_text) []
      in if grammar_issues \<noteq> [] then (5, grammar_header # take 3 grammar_issues) else (10, []))"

definition long_sentences :: "doc \<Rightarrow> token list list" where
  "long_sentences d = filter (\<lambda>sent. 40 < length sent) d"

lemma grammar_loop_closed:
  "grammar_loop sents acc = acc @ map long_sentence_line (filter (\<lambda>sent. 40 < length sent) sents)"
  by (induction sents arbitrary: acc) auto

lemma analyze_grammar_closed:
  "analyze_grammar nlp t =
     (if long_sentences (nlp t) = [] then (10, [])
      else (5, grammar_header # map long_sentence_line (take 3 (long_sentences (nlp t)))))"
  by (simp add: analyze_grammar_def grammar_loop_closed long_sentences_def take_map)

lemma analyze_grammar_short:
  "\<forall>sent \<in> set (nlp t). length sent \<le> 40 \<Longrightarrow> analyze_grammar nlp t = (10, [])"
  by (simp add: analyze_grammar_closed long_sentences_def filter_empty_conv not_less)

text \<open>C6: the grammar analysis scores 10 with no feedback when no sentence has more
  than forty tokens; otherwise it scores 5 and its feedback is the header followed
  by one quoting line for each of the first three such sentences, in document
  order.\<close>

theorem analyze_grammar_spec:
  "analyze_grammar nlp t =
     (if \<forall>sent \<in> set (nlp t). length sent \<le> 40 then (10, [])
      else (5, grammar_header #
               map long_sentence_line (take 3 (filter (\<lambda>sent. 40 < length sent) (nlp t)))))"
proof -
  have "long_sentences (nlp t) = [] \<longleftrightarrow> (\<forall>sent \<in> set (nlp t). length sent \<le> 40)"
    by (auto simp: long_sentences_def filter_empty_conv)
  then show ?thesis by (simp add: analyze_grammar_closed long_sentences_def)
qed

theorem analyze_grammar_spec_witness:
  "analyze_grammar toy_nlp ''Built systems. Led a team.'' = (10, [])"
proof -
  have h: "\<forall>sent \<in> set (toy_nlp ''Built systems. Led a team.''). length sent \<le> 40" by code_simp
  show ?thesis
    using analyze_grammar_spec [of toy_nlp "''Built systems. Led a team.''"] h by (simp only: if_P)
qed

text \<open>C7: the grammar score is 5 or 10, the feedback has at most four lines, and the
  score is 10 exactly when the feedback is empty.\<close>

theorem analyze_grammar_bounds:
  "fst (analyze_grammar nlp t) \<in> {5, 10} \<and> length (snd (analyze_grammar nlp t)) \<le> 4 \<and>
   (fst (analyze_grammar nlp t) = 10 \<longleftrightarrow> snd (analyze_grammar nlp t) = [])"
  by (simp add: analyze_grammar_closed)

text \<open>C26: for a model that reproduces the resume text from its tokens, every line
  of the grammar feedback other than the header quotes a sentence of the document with
  more than forty tokens whose text occurs verbatim in the resume.\<close>

theorem analyze_grammar_quotes_resume:
  assumes "nlp_lossless nlp t" "line \<in> set (snd (analyze_grammar nlp t))" "line \<noteq> grammar_header"
  shows "\<exists>sent. sent \<in> set (nlp t) \<and> line = long_sentence_line sent \<and> 40 < length sent \<and> sublist (span_text sent) t"
proof -
  from assms(2,3) obtain sent where tk: "sent \<in> set (take 3 (long_sentences (nlp t)))"
    and line: "line = long_sentence_line sent"
    by (auto simp: analyze_grammar_closed split: if_splits)
  from tk have "sent \<in> set (long_sentences (nlp t))" by (rule in_set_takeD)
  then have sent: "sent \<in> set (nlp t)" "40 < length sent" by (simp_all add: long_sentences_def)
  have "sublist (span_text sent) (concat (map text_with_ws sent))"
    by (rule prefix_imp_sublist [OF span_text_prefix])
  also have "sublist \<dots> t"
    using sentence_sublist_doc [OF sent(1)] assms(1) by (simp add: nlp_lossless_def)
  finally show ?thesis using sent line by blast
qed

theorem analyze_grammar_quotes_resume_witness:
  "\<exists>sent. sent \<in> set (toy_nlp (concat (replicate 41 ''x ''))) \<and>
     long_sentence_line (hd (toy_nlp (concat (replicate 41 ''x '')))) = long_sentence_line sent \<and>
     40 < length sent \<and> sublist (span_text sent) (concat (replicate 41 ''x ''))"
proof -
  have h1: "nlp_lossless toy_nlp (concat (replicate 41 ''x ''))" by code_simp
  have h2: "long_sentence_line (hd (toy_nlp (concat (replicate 41 ''x '')))) \<in>
      set (snd (analyze_grammar toy_nlp (concat (replicate 41 ''x ''))))" by code_simp
  have h3: "long_sentence_line (hd (toy_nlp (concat (replicate 41 ''x '')))) \<noteq> grammar_header"
    by code_simp
  show ?thesis by (rule analyze_grammar_quotes_resume [OF h1 h2 h3])
qed

end
