(* ===== verification/Normalizer.thy ===== *)
theory Normalizer
  imports Nlp
begin

text \<open>
  \<^verbatim>\<open>preprocess_text\<close> of \<^verbatim>\<open>src/app.py\<close>: run the model on the lowercased
  text, keep the lemma of every token that is neither a stop word nor
  non-alphabetic, and join the lemmas with single blanks.  The lemma shows that the
  blank-separated words of the result are exactly the lemmas of the kept tokens.
\<close>

definition kept_lemmas :: "nlp \<Rightarrow> string \<Rightarrow> string list" where
  "kept_lemmas nlp text =
     [tok_lemma token. token \<leftarrow> doc_tokens (nlp (py_lower text)), \<not> is_stop token \<and> is_alpha token]"

definition preprocess_text :: "nlp \<Rightarrow> string \<Rightarrow> string" where
  "preprocess_text nlp text = py_join '' '' (kept_lemmas nlp text)"

lemma preprocess_text_empty_doc: "nlp [] = [] \<Longrightarrow> preprocess_text nlp [] = []"
  by (simp add: preprocess_text_def kept_lemmas_def doc_tokens_def)

lemma kept_lemmas_tokens:
  "kept_lemmas nlp t = map tok_lemma (filter (\<lambda>tk. \<not> is_stop tk \<and> is_alpha tk) (doc_tokens (nlp (py_lower t))))"
  by (simp add: kept_lemmas_def concat_map_if_singleton)

text \<open>C8: when the model, run on the lowercased text, gives at least one token that
  is neither a stop word nor non-alphabetic, and no such token has a blank in its
  lemma, splitting the normalized text on blanks gives back exactly the lemmas of
  those tokens, in document order.\<close>

theorem preprocess_text_words:
  assumes "\<exists>tk \<in> set (doc_tokens (nlp (py_lower t))). \<not> is_stop tk \<and> is_alpha tk"
    and "\<forall>tk \<in> set (doc_tokens (nlp (py_lower t))).
           \<not> is_stop tk \<and> is_alpha tk \<longrightarrow> CHR '' '' \<notin> set (tok_lemma tk)"
  shows "py_split_sep CHR '' '' (preprocess_text nlp t) =
           map tok_lemma (filter (\<lambda>tk. \<not> is_stop tk \<and> is_alpha tk) (doc_tokens (nlp (py_lower t))))"
proof -
  have ne: "kept_lemmas nlp t \<noteq> []"
    using assms(1) by (auto simp: kept_lemmas_tokens filter_empty_conv)
  have nb: "\<forall>w \<in> set (kept_lemmas nlp t). CHR '' '' \<notin> set w"
    using assms(2) by (auto simp: kept_lemmas_tokens)
  show ?thesis
    using py_split_sep_join [OF ne nb] by (simp add: preprocess_text_def kept_lemmas_tokens)
qed

theorem preprocess_text_words_witness:
  "py_split_sep CHR '' '' (preprocess_text toy_nlp ''Built the systems.'') =
     map tok_lemma (filter (\<lambda>tk. \<not> is_stop tk \<and> is_alpha tk)
       (doc_tokens (toy_nlp (py_lower ''Built the systems.''))))"
proof -
  have h1: "\<exists>tk \<in> set (doc_tokens (toy_nlp (py_lower ''Built the systems.''))). \<not> is_stop tk \<and> is_alpha tk"
    by code_simp
  have h2: "\<forall>tk \<in> set (doc_tokens (toy_nlp (py_lower ''Built the systems.''))).
              \<not> is_stop tk \<and> is_alpha tk \<longrightarrow> CHR '' '' \<notin> set (tok_lemma tk)"
    by code_simp
  show ?thesis by (rule preprocess_text_words [where nlp = toy_nlp, OF h1 h2])
qed

end
