(* ===== verification/Keywords.thy ===== *)
theory Keywords
  imports Nlp "HOL-Library.Char_ord" "HOL-Library.List_Lexorder"
begin

text \<open>
  \<^verbatim>\<open>extract_keywords\<close> and \<^verbatim>\<open>suggest_improvements\<close> of \<^verbatim>\<open>src/app.py\<close>.
  The keyword sets are Python sets of strings.  \<^verbatim>\<open>list(missing_keywords)[:5]\<close>
  takes the first five elements in the set's iteration order, which CPython leaves
  to string hashing (randomised per process); the model takes that order as a
  parameter \<open>iter\<close>, and the lemmas hold for every \<open>iter\<close> that enumerates a
  finite set without repetition (\<open>py_iter_ok\<close>).  The loop that appends one line
  per keyword is the \<open>map\<close> over the selected keywords.
\<close>

definition content_pos :: "upos list" where
  "content_pos = [NOUN, PROPN, VERB, ADJ]"

definition extract_keywords :: "nlp \<Rightarrow> string \<Rightarrow> string list" where
  "extract_keywords nlp text =
     [tok_text token. token \<leftarrow> doc_tokens (nlp text),
        \<not> is_stop token \<and> is_alpha token \<and> tok_pos token \<in> set content_pos]"

definition missing_keywords :: "nlp \<Rightarrow> string \<Rightarrow> string \<Rightarrow> string set" where
  "missing_keywords nlp resume_text job_description =
     set (extract_keywords nlp (py_lower job_description)) -
     set (extract_keywords nlp (py_lower resume_text))"

definition kw_header :: string where
  "kw_header = ''Consider incorporating the following keywords from the job description:''"

definition kw_footer :: string where
  "kw_footer = ''Try to naturally integrate these keywords into your experience and skills sections.''"

definition kw_line :: "string \<Rightarrow> string" where
  "kw_line keyword = ''  - '' @ keyword"

definition suggest_improvements ::
  "nlp \<Rightarrow> (string set \<Rightarrow> string list) \<Rightarrow> string \<Rightarrow> string \<Rightarrow> string list" where
  "suggest_improvements nlp iter resume_text job_description =
     (let missing = missing_keywords nlp resume_text job_description
      in if missing \<noteq> {} then kw_header # map kw_line (take 5 (iter missing)) @ [kw_footer]
         else [])"

definition py_iter_ok :: "(string set \<Rightarrow> string list) \<Rightarrow> bool" where
  "py_iter_ok iter \<longleftrightarrow> (\<forall>S. finite S \<longrightarrow> distinct (iter S) \<and> set (iter S) = S)"

lemma finite_missing_keywords [simp]: "finite (missing_keywords nlp r j)"
  by (simp add: missing_keywords_def)

lemma py_iter_ok_sorted_list_of_set: "py_iter_ok sorted_list_of_set"
  by (simp add: py_iter_ok_def)

text \<open>C9: the advisor gives no line exactly when every job keyword is also a resume
  keyword.\<close>

theorem suggest_improvements_empty_iff:
  "suggest_improvements nlp iter r j = [] \<longleftrightarrow>
     set (extract_keywords nlp (py_lower j)) \<subseteq> set (extract_keywords nlp (py_lower r))"
  by (auto simp: suggest_improvements_def missing_keywords_def Let_def)

text \<open>C10: for any iteration order of the missing-keyword set, a non-empty advice is
  the header, one line for each of \<open>min 5 n\<close> distinct missing keywords (\<open>n\<close> the
  number of missing keywords), and the closing line; so never more than five
  keyword lines.\<close>

theorem suggest_improvements_shape:
  assumes "py_iter_ok iter" "missing_keywords nlp r j \<noteq> {}"
  shows "\<exists>ks. suggest_improvements nlp iter r j = kw_header # map kw_line ks @ [kw_footer] \<and>
              distinct ks \<and> set ks \<subseteq> missing_keywords nlp r j \<and>
              length ks = min 5 (card (missing_keywords nlp r j))"
proof -
  let ?M = "missing_keywords nlp r j"
  from assms(1) have d: "distinct (iter ?M)" and s: "set (iter ?M) = ?M"
    by (auto simp: py_iter_ok_def)
  have "length (iter ?M) = card ?M" using distinct_card [OF d] s by simp
  then have "length (take 5 (iter ?M)) = min 5 (card ?M)" by simp
  moreover have "distinct (take 5 (iter ?M))" using d by simp
  moreover have "set (take 5 (iter ?M)) \<subseteq> ?M" using s set_take_subset by metis
  ultimately show ?thesis using assms(2)
    by (intro exI [of _ "take 5 (iter ?M)"]) (simp add: suggest_improvements_def Let_def)
qed

theorem suggest_improvements_shape_witness:
  "(\<exists>ks. suggest_improvements toy_nlp sorted_list_of_set ''Experience: built systems.''
           ''Looking for a manager.'' = kw_header # map kw_line ks @ [kw_footer] \<and>
         distinct ks \<and> set ks \<subseteq> missing_keywords toy_nlp ''Experience: built systems.''
           ''Looking for a manager.'' \<and>
         length ks = min 5 (card (missing_keywords toy_nlp ''Experience: built systems.''
           ''Looking for a manager.'')))"
proof -
  have h: "missing_keywords toy_nlp ''Experience: built systems.'' ''Looking for a manager.'' \<noteq> {}"
    by code_simp
  show ?thesis
    by (rule suggest_improvements_shape [OF py_iter_ok_sorted_list_of_set h])
qed

end
