(* ===== verification/Similarity.thy ===== *)
theory Similarity
  imports Complex_Main Prelude "HOL-Library.Char_ord" "HOL-Library.List_Lexorder" "HOL-Library.Multiset"
begin

text \<open>
  \<^verbatim>\<open>calculate_similarity_tfidf\<close> of \<^verbatim>\<open>src/app.py\<close> and the two scikit-learn
  calls it makes, with scikit-learn's defaults:
  \<^item> \<^verbatim>\<open>TfidfVectorizer().fit_transform([resume, job_desc])\<close>: lowercase each
    document, take the matches of the token pattern \<^verbatim>\<open>\b\w\w+\b\<close> (maximal runs
    of word characters, two or more long) as terms (\<open>sk_tokenize\<close>), the sorted
    distinct terms as vocabulary, raise \<^verbatim>\<open>ValueError\<close> when the vocabulary is
    empty, weight each term count by the smoothed idf
    \<open>ln ((1 + n) / (1 + df)) + 1\<close> and scale each row to unit Euclidean norm, a
    zero row staying zero (\<open>fit_transform\<close>);
  \<^item> \<^verbatim>\<open>cosine_similarity(vectors)\<close>: normalise the rows again and take their
    pairwise dot products (\<open>cosine_similarity\<close>).
  Values are real numbers: the model is the exact arithmetic that the floating-point
  computation approximates.  Word characters are the ASCII letters, digits and the
  underscore.
\<close>

subsection \<open>Tokenizer and vocabulary\<close>

definition is_word_char :: "char \<Rightarrow> bool" where
  "is_word_char c =
     (let n = of_char c :: nat
      in (48 \<le> n \<and> n \<le> 57) \<or> (65 \<le> n \<and> n \<le> 90) \<or> (97 \<le> n \<and> n \<le> 122) \<or> n = 95)"

fun word_runs :: "string \<Rightarrow> string \<Rightarrow> string list" where
  "word_runs cur [] = (if cur = [] then [] else [rev cur])"
| "word_runs cur (c # cs) =
     (if is_word_char c then word_runs (c # cur) cs
      else (if cur = [] then [] else [rev cur]) @ word_runs [] cs)"

definition sk_tokenize :: "string \<Rightarrow> string list" where
  "sk_tokenize doc = filter (\<lambda>w. 2 \<le> length w) (word_runs [] (py_lower doc))"

definition vocabulary :: "string list list \<Rightarrow> string list" where
  "vocabulary docs_terms = sort (remdups (concat docs_terms))"

subsection \<open>TF-IDF weighting\<close>

definition doc_freq :: "string list list \<Rightarrow> string \<Rightarrow> nat" where
  "doc_freq docs_terms w = length (filter (\<lambda>ts. w \<in> set ts) docs_terms)"

definition idf :: "string list list \<Rightarrow> string \<Rightarrow> real" where
  "idf docs_terms w =
     ln ((1 + real (length docs_terms)) / (1 + real (doc_freq docs_terms w))) + 1"

definition sum_sq :: "real list \<Rightarrow> real" where
  "sum_sq v = sum_list (map (\<lambda>x. x\<^sup>2) v)"

definition l2_normalize :: "real list \<Rightarrow> real list" where
  "l2_normalize v = (let n = sqrt (sum_sq v) in if n = 0 then v else map (\<lambda>x. x / n) v)"

definition tfidf_row :: "string list list \<Rightarrow> string list \<Rightarrow> string list \<Rightarrow> real list" where
  "tfidf_row docs_terms voc ts = map (\<lambda>w. real (count_list ts w) * idf docs_terms w) voc"

definition fit_transform :: "string list \<Rightarrow> py_error + real list list" where
  "fit_transform docs =
     (let docs_terms = map sk_tokenize docs; voc = vocabulary docs_terms
      in if voc = []
         then Inl (ValueError ''empty vocabulary; perhaps the documents only contain stop words'')
         else Inr (map (\<lambda>ts. l2_normalize (tfidf_row docs_terms voc ts)) docs_terms))"

subsection \<open>Cosine similarity\<close>

definition dot :: "real list \<Rightarrow> real list \<Rightarrow> real" where
  "dot u v = sum_list (map (\<lambda>(x, y). x * y) (zip u v))"

definition cosine_similarity :: "real list list \<Rightarrow> real list list" where
  "cosine_similarity rows =
     (let rs = map l2_normalize rows in map (\<lambda>u. map (\<lambda>v. dot u v) rs) rs)"

definition calculate_similarity_tfidf :: "string \<Rightarrow> string \<Rightarrow> py_error + real" where
  "calculate_similarity_tfidf resume job_desc =
     (case fit_transform [resume, job_desc] of
        Inl e \<Rightarrow> Inl e
      | Inr vectors \<Rightarrow> Inr (cosine_similarity vectors ! 0 ! 1 * 100))"

subsection \<open>Abstract specification\<close>

text \<open>The textbook cosine similarity of two term-weight functions over a finite set
  of terms, 0 when one of them is the zero vector, and the TF-IDF weight of a term.\<close>

definition term_weight :: "string list list \<Rightarrow> string list \<Rightarrow> string \<Rightarrow> real" where
  "term_weight docs_terms ts w = real (count_list ts w) * idf docs_terms w"

definition cosine_spec :: "(string \<Rightarrow> real) \<Rightarrow> (string \<Rightarrow> real) \<Rightarrow> string set \<Rightarrow> real" where
  "cosine_spec u v S =
     (let nu = sqrt (\<Sum>w \<in> S. (u w)\<^sup>2); nv = sqrt (\<Sum>w \<in> S. (v w)\<^sup>2)
      in if nu = 0 \<or> nv = 0 then 0 else (\<Sum>w \<in> S. u w * v w) / (nu * nv))"

subsection \<open>Vectors\<close>

lemma sum_sq_nonneg: "0 \<le> sum_sq v"
  by (induction v) (auto simp: sum_sq_def)

lemma sum_sq_eq_0_iff: "sum_sq v = 0 \<longleftrightarrow> (\<forall>x \<in> set v. x = 0)"
  unfolding sum_sq_def by (subst sum_list_nonneg_eq_0_iff) auto

lemma sum_sq_map_divide: "sum_sq (map (\<lambda>x. x / n) v) = sum_sq v / n\<^sup>2"
  by (induction v) (auto simp: sum_sq_def power_divide add_divide_distrib)

lemma l2_normalize_unit: "sum_sq v \<noteq> 0 \<Longrightarrow> sum_sq (l2_normalize v) = 1"
proof -
  assume nz: "sum_sq v \<noteq> 0"
  then have pos: "0 < sum_sq v" using sum_sq_nonneg [of v] by linarith
  then have "sqrt (sum_sq v) \<noteq> 0" by simp
  moreover have "(sqrt (sum_sq v))\<^sup>2 = sum_sq v" using pos by simp
  ultimately show ?thesis using nz by (simp add: l2_normalize_def Let_def sum_sq_map_divide)
qed

lemma l2_normalize_zero: "sum_sq v = 0 \<Longrightarrow> l2_normalize v = v"
  by (simp add: l2_normalize_def)

lemma l2_normalize_of_unit: "sum_sq v = 1 \<Longrightarrow> l2_normalize v = v"
  by (simp add: l2_normalize_def)

lemma l2_normalize_idem: "l2_normalize (l2_normalize v) = l2_normalize v"
  by (cases "sum_sq v = 0") (simp_all add: l2_normalize_zero l2_normalize_unit l2_normalize_of_unit)

lemma sum_sq_l2_normalize_le: "sum_sq (l2_normalize v) \<le> 1"
  by (cases "sum_sq v = 0") (simp_all add: l2_normalize_zero l2_normalize_unit)

lemma length_l2_normalize [simp]: "length (l2_normalize v) = length v"
  by (simp add: l2_normalize_def Let_def)

lemma l2_normalize_nonneg: "\<forall>x \<in> set v. 0 \<le> x \<Longrightarrow> \<forall>x \<in> set (l2_normalize v). 0 \<le> x"
  using sum_sq_nonneg [of v] by (auto simp: l2_normalize_def Let_def intro!: divide_nonneg_nonneg)

lemma l2_normalize_zeros:
  "list_all2 (\<lambda>x y. x = 0 \<or> y = 0) u v \<Longrightarrow>
   list_all2 (\<lambda>x y. x = 0 \<or> y = 0) (l2_normalize u) (l2_normalize v)"
  by (auto simp: l2_normalize_def Let_def list_all2_map1 list_all2_map2 elim: list_all2_mono)

lemma dot_comm: "dot u v = dot v u"
proof -
  have "map (\<lambda>(x, y). x * y) (zip u v) = map (\<lambda>(x, y). x * y) (zip v u)"
    by (induction u v rule: list_induct2') (auto simp: mult.commute)
  then show ?thesis by (simp add: dot_def)
qed

lemma dot_nonneg: "\<forall>x \<in> set u. 0 \<le> x \<Longrightarrow> \<forall>y \<in> set v. 0 \<le> y \<Longrightarrow> 0 \<le> dot u v"
  unfolding dot_def
  by (rule sum_list_nonneg) (auto dest: set_zip_leftD set_zip_rightD intro!: mult_nonneg_nonneg)

lemma dot_le: "length u = length v \<Longrightarrow> 2 * dot u v \<le> sum_sq u + sum_sq v"
proof (induction u v rule: list_induct2)
  case Nil
  then show ?case by (simp add: dot_def sum_sq_def)
next
  case (Cons x xs y ys)
  have "0 \<le> (x - y)\<^sup>2" by simp
  then have "2 * (x * y) \<le> x\<^sup>2 + y\<^sup>2" by (simp add: power2_diff)
  with Cons.IH show ?case by (simp add: dot_def sum_sq_def algebra_simps)
qed

lemma dot_zeros: "list_all2 (\<lambda>x y. x = 0 \<or> y = 0) u v \<Longrightarrow> dot u v = 0"
  by (induction rule: list_all2_induct) (auto simp: dot_def)

lemma dot_l2_normalize_le:
  "length u = length v \<Longrightarrow> dot (l2_normalize u) (l2_normalize v) \<le> 1"
  using dot_le [of "l2_normalize u" "l2_normalize v"]
    sum_sq_l2_normalize_le [of u] sum_sq_l2_normalize_le [of v] by simp

subsection \<open>Vocabulary and rows\<close>

lemma set_vocabulary: "set (vocabulary ts) = \<Union> (set (map set ts))"
  by (simp add: vocabulary_def)

lemma vocabulary_pair_Nil_iff: "vocabulary [ta, tb] = [] \<longleftrightarrow> ta = [] \<and> tb = []"
proof -
  have "set (vocabulary [ta, tb]) = set ta \<union> set tb" by (simp add: set_vocabulary)
  then show ?thesis by (metis Un_empty set_empty)
qed

lemma vocabulary_pair_swap: "vocabulary [ta, tb] = vocabulary [tb, ta]"
proof -
  have "vocabulary [ta, tb] = sorted_list_of_set (set ta \<union> set tb)"
    by (simp add: vocabulary_def sorted_list_of_set_sort_remdups [symmetric])
  moreover have "vocabulary [tb, ta] = sorted_list_of_set (set tb \<union> set ta)"
    by (simp add: vocabulary_def sorted_list_of_set_sort_remdups [symmetric])
  ultimately show ?thesis by (simp add: Un_commute)
qed

lemma idf_pair_swap: "idf [ta, tb] w = idf [tb, ta] w"
  by (simp add: idf_def doc_freq_def)

lemma tfidf_row_swap:
  "tfidf_row [tb, ta] (vocabulary [tb, ta]) ts = tfidf_row [ta, tb] (vocabulary [ta, tb]) ts"
  unfolding tfidf_row_def by (subst vocabulary_pair_swap) (simp add: idf_pair_swap)

lemma idf_pos: "0 < idf ts w"
proof -
  have "doc_freq ts w \<le> length ts" by (simp add: doc_freq_def)
  then have "1 \<le> (1 + real (length ts)) / (1 + real (doc_freq ts w))" by simp
  then have "0 \<le> ln ((1 + real (length ts)) / (1 + real (doc_freq ts w)))" by (rule ln_ge_zero)
  then show ?thesis unfolding idf_def by linarith
qed

lemma tfidf_row_nonneg: "\<forall>x \<in> set (tfidf_row T V ts). 0 \<le> x"
  using idf_pos by (auto simp: tfidf_row_def less_imp_le)

lemma length_tfidf_row [simp]: "length (tfidf_row T V ts) = length V"
  by (simp add: tfidf_row_def)

lemma sk_tokenize_Nil [simp]: "sk_tokenize [] = []"
  by (simp add: sk_tokenize_def)

lemma calculate_similarity_tfidf_value:
  assumes "sk_tokenize a \<noteq> [] \<or> sk_tokenize b \<noteq> []"
  shows "calculate_similarity_tfidf a b =
     Inr (100 * dot (l2_normalize (tfidf_row [sk_tokenize a, sk_tokenize b]
                                   (vocabulary [sk_tokenize a, sk_tokenize b]) (sk_tokenize a)))
                    (l2_normalize (tfidf_row [sk_tokenize a, sk_tokenize b]
                                   (vocabulary [sk_tokenize a, sk_tokenize b]) (sk_tokenize b))))"
proof -
  have "vocabulary [sk_tokenize a, sk_tokenize b] \<noteq> []"
    using assms by (simp add: vocabulary_pair_Nil_iff)
  then show ?thesis
    by (simp add: calculate_similarity_tfidf_def fit_transform_def Let_def cosine_similarity_def
                  l2_normalize_idem)
qed

lemma calculate_similarity_tfidf_Nil:
  "sk_tokenize a = [] \<Longrightarrow> sk_tokenize b = [] \<Longrightarrow>
   calculate_similarity_tfidf a b =
     Inl (ValueError ''empty vocabulary; perhaps the documents only contain stop words'')"
  by (simp add: calculate_similarity_tfidf_def fit_transform_def vocabulary_pair_Nil_iff)

lemma tfidf_rows_disjoint:
  assumes "set ta \<inter> set tb = {}"
  shows "list_all2 (\<lambda>x y. x = 0 \<or> y = 0) (tfidf_row T V ta) (tfidf_row T V tb)"
proof -
  have "\<forall>w \<in> set V. count_list ta w = 0 \<or> count_list tb w = 0"
    using assms by (auto simp: count_list_0_iff)
  then show ?thesis
    by (simp add: tfidf_row_def list_all2_map1 list_all2_map2 list_all2_same) blast
qed


lemma similarity_rows_disjoint:
  assumes "set ta \<inter> set tb = {}"
  shows "dot (l2_normalize (tfidf_row T V ta)) (l2_normalize (tfidf_row T V tb)) = 0"
  using assms by (intro dot_zeros l2_normalize_zeros tfidf_rows_disjoint)

subsection \<open>Properties of the similarity score\<close>

text \<open>C11: the similarity computation fails, with scikit-learn's empty-vocabulary
  \<^verbatim>\<open>ValueError\<close>, exactly when neither document has a term of two or more word
  characters.\<close>

theorem calculate_similarity_tfidf_error:
  "isl (calculate_similarity_tfidf a b) \<longleftrightarrow> sk_tokenize a = [] \<and> sk_tokenize b = []"
proof (cases "sk_tokenize a = [] \<and> sk_tokenize b = []")
  case True
  then show ?thesis by (simp add: calculate_similarity_tfidf_Nil)
next
  case False
  then have "sk_tokenize a \<noteq> [] \<or> sk_tokenize b \<noteq> []" by blast
  with False show ?thesis by (simp only: calculate_similarity_tfidf_value sum.disc simp_thms)
qed






text \<open>In exact arithmetic a computed similarity lies between 0 and 100.  The
  floating-point program can exceed 100 by rounding (two equally weighted terms
  compared with themselves give 100.00000000000003), so this range is a fact of the
  model, not a claim about the program's floats.\<close>

lemma calculate_similarity_tfidf_exact_range:
  "case calculate_similarity_tfidf a b of Inl e \<Rightarrow> True | Inr s \<Rightarrow> 0 \<le> s \<and> s \<le> 100"
proof (cases "sk_tokenize a = [] \<and> sk_tokenize b = []")
  case True
  then show ?thesis by (simp add: calculate_similarity_tfidf_Nil)
next
  case False
  let ?T = "[sk_tokenize a, sk_tokenize b]"
  let ?u = "tfidf_row ?T (vocabulary ?T) (sk_tokenize a)"
  let ?v = "tfidf_row ?T (vocabulary ?T) (sk_tokenize b)"
  have "0 \<le> dot (l2_normalize ?u) (l2_normalize ?v)"
    by (intro dot_nonneg l2_normalize_nonneg tfidf_row_nonneg)
  moreover have "dot (l2_normalize ?u) (l2_normalize ?v) \<le> 1"
    by (rule dot_l2_normalize_le) simp
  moreover have "sk_tokenize a \<noteq> [] \<or> sk_tokenize b \<noteq> []" using False by blast
  ultimately show ?thesis by (simp add: calculate_similarity_tfidf_value)
qed

text \<open>C13: the similarity is symmetric in its two documents, errors included.\<close>

theorem calculate_similarity_tfidf_sym:
  "calculate_similarity_tfidf a b = calculate_similarity_tfidf b a"
proof (cases "sk_tokenize a = [] \<and> sk_tokenize b = []")
  case True
  then show ?thesis by (simp add: calculate_similarity_tfidf_Nil)
next
  case False
  then have ab: "sk_tokenize a \<noteq> [] \<or> sk_tokenize b \<noteq> []"
    and ba: "sk_tokenize b \<noteq> [] \<or> sk_tokenize a \<noteq> []" by blast+
  show ?thesis
    unfolding calculate_similarity_tfidf_value [OF ab] calculate_similarity_tfidf_value [OF ba]
      tfidf_row_swap
    by (simp add: dot_comm)
qed

text \<open>C14: documents with no common term have similarity 0 when at least one of
  them has a term; in particular when exactly one document has no term.\<close>

theorem calculate_similarity_tfidf_disjoint:
  assumes "set (sk_tokenize a) \<inter> set (sk_tokenize b) = {}" "sk_tokenize a \<noteq> [] \<or> sk_tokenize b \<noteq> []"
  shows "calculate_similarity_tfidf a b = Inr 0"
  using calculate_similarity_tfidf_value [OF assms(2)] similarity_rows_disjoint [OF assms(1)] by simp

theorem calculate_similarity_tfidf_disjoint_witness:
  "calculate_similarity_tfidf ''Python developer'' ''Java manager'' = Inr 0"
proof -
  have h1: "set (sk_tokenize ''Python developer'') \<inter> set (sk_tokenize ''Java manager'') = {}"
    by code_simp
  have h2: "sk_tokenize ''Python developer'' \<noteq> [] \<or> sk_tokenize ''Java manager'' \<noteq> []"
    by code_simp
  show ?thesis by (rule calculate_similarity_tfidf_disjoint [OF h1 h2])
qed

lemma dot_map_divide: "dot (map (\<lambda>z. z / c) u) (map (\<lambda>z. z / d) v) = dot u v / (c * d)"
  by (induction u v rule: list_induct2') (auto simp: dot_def add_divide_distrib)

lemma dot_map_map: "dot (map f V) (map g V) = sum_list (map (\<lambda>w. f w * g w) V)"
  by (induction V) (auto simp: dot_def)

lemma sum_sq_map: "sum_sq (map f V) = sum_list (map (\<lambda>w. (f w)\<^sup>2) V)"
  by (induction V) (auto simp: sum_sq_def)

lemma distinct_vocabulary: "distinct (vocabulary ts)"
  by (simp add: vocabulary_def)

lemma dot_zero_left: "\<forall>x \<in> set u. x = 0 \<Longrightarrow> dot u v = 0"
  by (induction u v rule: list_induct2') (auto simp: dot_def)

lemma dot_l2_normalize:
  "dot (l2_normalize u) (l2_normalize v) =
     (if sum_sq u = 0 \<or> sum_sq v = 0 then 0 else dot u v / (sqrt (sum_sq u) * sqrt (sum_sq v)))"
proof (cases "sum_sq u = 0 \<or> sum_sq v = 0")
  case True
  then show ?thesis
  proof
    assume "sum_sq u = 0"
    then have "\<forall>x \<in> set (l2_normalize u). x = 0" by (simp add: l2_normalize_zero sum_sq_eq_0_iff)
    then show ?thesis using True by (simp add: dot_zero_left)
  next
    assume "sum_sq v = 0"
    then have "\<forall>x \<in> set (l2_normalize v). x = 0" by (simp add: l2_normalize_zero sum_sq_eq_0_iff)
    then show ?thesis using True by (simp add: dot_zero_left dot_comm [of "l2_normalize u"])
  qed
next
  case False
  then have "sqrt (sum_sq u) \<noteq> 0" "sqrt (sum_sq v) \<noteq> 0" by simp_all
  with False show ?thesis by (simp add: l2_normalize_def Let_def dot_map_divide)
qed

text \<open>C24: the similarity refines the abstract cosine: whenever one document has a
  term, the result is 100 times the cosine of the two TF-IDF weight functions over
  the union of the two term sets, whatever the order of the vocabulary.\<close>

theorem calculate_similarity_tfidf_refines_cosine:
  assumes "sk_tokenize a \<noteq> [] \<or> sk_tokenize b \<noteq> []"
  shows "calculate_similarity_tfidf a b =
     Inr (100 * cosine_spec (term_weight [sk_tokenize a, sk_tokenize b] (sk_tokenize a))
                            (term_weight [sk_tokenize a, sk_tokenize b] (sk_tokenize b))
                            (set (sk_tokenize a) \<union> set (sk_tokenize b)))"
proof -
  let ?T = "[sk_tokenize a, sk_tokenize b]"
  let ?V = "vocabulary ?T"
  let ?u = "term_weight ?T (sk_tokenize a)" and ?v = "term_weight ?T (sk_tokenize b)"
  have rows: "tfidf_row ?T ?V (sk_tokenize a) = map ?u ?V" "tfidf_row ?T ?V (sk_tokenize b) = map ?v ?V"
    by (simp_all add: tfidf_row_def term_weight_def)
  have setV: "set ?V = set (sk_tokenize a) \<union> set (sk_tokenize b)" by (simp add: set_vocabulary)
  have sums: "sum_sq (map ?u ?V) = (\<Sum>w \<in> set (sk_tokenize a) \<union> set (sk_tokenize b). (?u w)\<^sup>2)"
    "sum_sq (map ?v ?V) = (\<Sum>w \<in> set (sk_tokenize a) \<union> set (sk_tokenize b). (?v w)\<^sup>2)"
    "dot (map ?u ?V) (map ?v ?V) = (\<Sum>w \<in> set (sk_tokenize a) \<union> set (sk_tokenize b). ?u w * ?v w)"
    using distinct_vocabulary [of ?T]
    by (simp_all add: sum_sq_map dot_map_map sum_list_distinct_conv_sum_set setV)
  have nonneg: "0 \<le> sum_sq (map ?u ?V)" "0 \<le> sum_sq (map ?v ?V)" by (simp_all add: sum_sq_nonneg)
  show ?thesis
    using nonneg
    by (simp add: calculate_similarity_tfidf_value [OF assms] rows dot_l2_normalize cosine_spec_def
                  Let_def flip: sums)
qed

theorem calculate_similarity_tfidf_refines_cosine_witness:
  "calculate_similarity_tfidf ''Python developer'' ''Java developer'' =
     Inr (100 * cosine_spec
        (term_weight [sk_tokenize ''Python developer'', sk_tokenize ''Java developer'']
           (sk_tokenize ''Python developer''))
        (term_weight [sk_tokenize ''Python developer'', sk_tokenize ''Java developer'']
           (sk_tokenize ''Java developer''))
        (set (sk_tokenize ''Python developer'') \<union> set (sk_tokenize ''Java developer'')))"
proof -
  have h: "sk_tokenize ''Python developer'' \<noteq> [] \<or> sk_tokenize ''Java developer'' \<noteq> []"
    by code_simp
  show ?thesis by (rule calculate_similarity_tfidf_refines_cosine [OF h])
qed

end
