(* ===== verification/Checker.thy ===== *)
theory Checker
  imports Structure Grammar Normalizer Keywords Similarity
begin

text \<open>
  \<^verbatim>\<open>ats_resume_checker\<close> of \<^verbatim>\<open>src/app.py\<close>: normalise both texts, compute the
  similarity (whose \<^verbatim>\<open>ValueError\<close> propagates, so no later step runs), run the
  three analyzers and the keyword advisor on the raw texts, add the three sub-scores
  and concatenate the feedback in the order structure, certification, grammar,
  keywords.  The lemmas show that the final score and the analyzers' feedback do not
  depend on the job description, give the exact failure condition, the range of the
  final score and the exact conditions under which its bounds are reached.
\<close>

definition ats_resume_checker ::
  "nlp \<Rightarrow> (string set \<Rightarrow> string list) \<Rightarrow> string \<Rightarrow> string \<Rightarrow>
   py_error + real \<times> int \<times> string list" where
  "ats_resume_checker nlp iter resume_text job_description =
     (let resume_cleaned = preprocess_text nlp resume_text;
          job_desc_cleaned = preprocess_text nlp job_description
      in case calculate_similarity_tfidf resume_cleaned job_desc_cleaned of
           Inl e \<Rightarrow> Inl e
         | Inr similarity_score \<Rightarrow>
             (let (structure_score, structure_feedback) = analyze_resume_structure resume_text;
                  (certification_score, certification_feedback) = analyze_certifications resume_text;
                  (grammar_score, grammar_feedback) = analyze_grammar nlp resume_text;
                  keyword_suggestions = suggest_improvements nlp iter resume_text job_description;
                  final_score = structure_score + certification_score + grammar_score;
                  all_feedback = structure_feedback @ certification_feedback @ grammar_feedback @
                                 keyword_suggestions
              in Inr (similarity_score, final_score, all_feedback)))"

definition final_score_of :: "nlp \<Rightarrow> string \<Rightarrow> int" where
  "final_score_of nlp r =
     fst (analyze_resume_structure r) + fst (analyze_certifications r) + fst (analyze_grammar nlp r)"

definition feedback_of :: "nlp \<Rightarrow> (string set \<Rightarrow> string list) \<Rightarrow> string \<Rightarrow> string \<Rightarrow> string list" where
  "feedback_of nlp iter r j =
     snd (analyze_resume_structure r) @ snd (analyze_certifications r) @
     snd (analyze_grammar nlp r) @ suggest_improvements nlp iter r j"

lemma ats_resume_checker_eq:
  "ats_resume_checker nlp iter r j =
     (case calculate_similarity_tfidf (preprocess_text nlp r) (preprocess_text nlp j) of
        Inl e \<Rightarrow> Inl e
      | Inr s \<Rightarrow> Inr (s, final_score_of nlp r, feedback_of nlp iter r j))"
  by (simp add: ats_resume_checker_def final_score_of_def feedback_of_def Let_def
           split: prod.splits sum.splits)

lemma analyze_certifications_cases:
  "analyze_certifications t = (10, []) \<or> analyze_certifications t = (0, cert_block)"
  by (simp add: analyze_certifications_def)

lemma final_score_of_bounds: "5 \<le> final_score_of nlp r \<and> final_score_of nlp r \<le> 120"
proof -
  have "0 \<le> fst (analyze_resume_structure r) \<and> fst (analyze_resume_structure r) \<le> 100"
    by (rule structure_score_range)
  moreover have "fst (analyze_certifications r) \<in> {0, 10}"
    using analyze_certifications_cases [of r] by auto
  moreover have "fst (analyze_grammar nlp r) \<in> {5, 10}"
    by (simp add: analyze_grammar_closed)
  ultimately show ?thesis by (auto simp: final_score_of_def)
qed

text \<open>C15: the final score and the analyzers' feedback do not depend on the job
  description, nor therefore on the similarity: two successful evaluations of the same
  resume against any two job descriptions give the same final score, and their
  feedback lists share everything before the keyword advice for the respective job.\<close>

theorem ats_resume_checker_job_independent:
  "case (ats_resume_checker nlp iter r j1, ats_resume_checker nlp iter r j2) of
     (Inr (s1, f1, fb1), Inr (s2, f2, fb2)) \<Rightarrow>
       f1 = f2 \<and>
       (\<exists>p. fb1 = p @ suggest_improvements nlp iter r j1 \<and> fb2 = p @ suggest_improvements nlp iter r j2)
   | _ \<Rightarrow> True"
  by (simp add: ats_resume_checker_eq feedback_of_def split: sum.splits)

text \<open>C16: the evaluation fails (with the vectorizer's \<^verbatim>\<open>ValueError\<close>) exactly
  when neither normalized text has a term of two or more word characters; the
  pipeline does not guard this case.\<close>

theorem ats_resume_checker_error:
  "isl (ats_resume_checker nlp iter r j) \<longleftrightarrow>
     sk_tokenize (preprocess_text nlp r) = [] \<and> sk_tokenize (preprocess_text nlp j) = []"
proof (cases "sk_tokenize (preprocess_text nlp r) = [] \<and> sk_tokenize (preprocess_text nlp j) = []")
  case True
  then show ?thesis by (simp add: ats_resume_checker_eq calculate_similarity_tfidf_Nil)
next
  case False
  then have "sk_tokenize (preprocess_text nlp r) \<noteq> [] \<or> sk_tokenize (preprocess_text nlp j) \<noteq> []"
    by blast
  with False show ?thesis by (simp add: ats_resume_checker_eq calculate_similarity_tfidf_value)
qed

text \<open>C17: the final score of a successful evaluation lies between 5 and 120: it is
  not clamped to 100, and its least value is 5, not 15.\<close>

theorem ats_resume_checker_bounds:
  "case ats_resume_checker nlp iter r j of
     Inl e \<Rightarrow> True
   | Inr (s, f, fb) \<Rightarrow> 5 \<le> f \<and> f \<le> 120"
  using final_score_of_bounds [of nlp r] by (simp add: ats_resume_checker_eq split: sum.splits)

lemma analyze_certifications_score:
  "(fst (analyze_certifications t) = 10 \<longleftrightarrow>
      sublist ''certification'' (py_lower t) \<or> sublist ''certified'' (py_lower t)) \<and>
   (fst (analyze_certifications t) = 0 \<longleftrightarrow>
      \<not> sublist ''certification'' (py_lower t) \<and> \<not> sublist ''certified'' (py_lower t))"
  by (simp add: analyze_certifications_def py_in_sublist)

lemma analyze_grammar_score:
  "(fst (analyze_grammar nlp t) = 10 \<longleftrightarrow> (\<forall>sent \<in> set (nlp t). length sent \<le> 40)) \<and>
   (fst (analyze_grammar nlp t) = 5 \<longleftrightarrow> (\<exists>sent \<in> set (nlp t). 40 < length sent))"
  by (auto simp: analyze_grammar_closed long_sentences_def filter_empty_conv not_le)

text \<open>C18: the bounds of the final score are reached, for every model: a successful
  evaluation has final score 120 exactly when the lowercased resume names every
  catalogue section and a certification trigger and no sentence has more than forty
  tokens, and final score 5 exactly when it names no section and no trigger and some
  sentence has more than forty tokens.\<close>

theorem ats_resume_checker_score_extremes:
  "case ats_resume_checker nlp iter r j of
     Inl e \<Rightarrow> True
   | Inr (s, f, fb) \<Rightarrow>
       (f = 120 \<longleftrightarrow>
          (\<forall>(name, p) \<in> set sections. sublist name (py_lower r)) \<and>
          (sublist ''certification'' (py_lower r) \<or> sublist ''certified'' (py_lower r)) \<and>
          (\<forall>sent \<in> set (nlp r). length sent \<le> 40)) \<and>
       (f = 5 \<longleftrightarrow>
          (\<forall>(name, p) \<in> set sections. \<not> sublist name (py_lower r)) \<and>
          \<not> sublist ''certification'' (py_lower r) \<and> \<not> sublist ''certified'' (py_lower r) \<and>
          (\<exists>sent \<in> set (nlp r). 40 < length sent))"
proof -
  have st: "0 \<le> fst (analyze_resume_structure r) \<and> fst (analyze_resume_structure r) \<le> 100"
    by (rule structure_score_range)
  have ce: "fst (analyze_certifications r) \<in> {0, 10}"
    using analyze_certifications_cases [of r] by auto
  have gr: "fst (analyze_grammar nlp r) \<in> {5, 10}"
    by (simp add: analyze_grammar_closed)
  have "final_score_of nlp r = 120 \<longleftrightarrow>
          fst (analyze_resume_structure r) = 100 \<and> fst (analyze_certifications r) = 10 \<and>
          fst (analyze_grammar nlp r) = 10"
    using st ce gr by (auto simp: final_score_of_def)
  moreover have "final_score_of nlp r = 5 \<longleftrightarrow>
          fst (analyze_resume_structure r) = 0 \<and> fst (analyze_certifications r) = 0 \<and>
          fst (analyze_grammar nlp r) = 5"
    using st ce gr by (auto simp: final_score_of_def)
  ultimately show ?thesis
    using structure_score_extremes [of r] analyze_certifications_score [of r]
      analyze_grammar_score [of nlp r]
    by (simp add: ats_resume_checker_eq split: sum.splits)
qed

theorem ats_resume_checker_score_extremes_witness:
  "(\<exists>s fb. ats_resume_checker toy_nlp sorted_list_of_set
       ''Contact information, summary, education, experience, skills, achievements. Certified.''
       ''Manager'' = Inr (s, 120, fb)) \<and>
   (\<exists>s fb. ats_resume_checker toy_nlp sorted_list_of_set (concat (replicate 41 ''x '')) ''Manager'' =
       Inr (s, 5, fb))"
proof -
  let ?r1 = "''Contact information, summary, education, experience, skills, achievements. Certified.''"
  let ?r2 = "concat (replicate 41 ''x '')"
  have m: "sk_tokenize (preprocess_text toy_nlp ''Manager'') \<noteq> []" by code_simp
  have ne1: "sk_tokenize (preprocess_text toy_nlp ?r1) \<noteq> [] \<or> sk_tokenize (preprocess_text toy_nlp ''Manager'') \<noteq> []"
    using m by blast
  have ne2: "sk_tokenize (preprocess_text toy_nlp ?r2) \<noteq> [] \<or> sk_tokenize (preprocess_text toy_nlp ''Manager'') \<noteq> []"
    using m by blast
  obtain s1 where s1: "calculate_similarity_tfidf (preprocess_text toy_nlp ?r1) (preprocess_text toy_nlp ''Manager'') = Inr s1"
    using calculate_similarity_tfidf_value [OF ne1] by blast
  obtain s2 where s2: "calculate_similarity_tfidf (preprocess_text toy_nlp ?r2) (preprocess_text toy_nlp ''Manager'') = Inr s2"
    using calculate_similarity_tfidf_value [OF ne2] by blast
  have e1: "ats_resume_checker toy_nlp sorted_list_of_set ?r1 ''Manager'' =
      Inr (s1, final_score_of toy_nlp ?r1, feedback_of toy_nlp sorted_list_of_set ?r1 ''Manager'')"
    by (simp only: ats_resume_checker_eq s1 sum.case)
  have e2: "ats_resume_checker toy_nlp sorted_list_of_set ?r2 ''Manager'' =
      Inr (s2, final_score_of toy_nlp ?r2, feedback_of toy_nlp sorted_list_of_set ?r2 ''Manager'')"
    by (simp only: ats_resume_checker_eq s2 sum.case)
  note t1 = ats_resume_checker_score_extremes [where nlp = toy_nlp and iter = sorted_list_of_set and r = ?r1 and j = "''Manager''", unfolded e1 sum.case prod.case]
  note t2 = ats_resume_checker_score_extremes [where nlp = toy_nlp and iter = sorted_list_of_set and r = ?r2 and j = "''Manager''", unfolded e2 sum.case prod.case]
  have f1: "final_score_of toy_nlp ?r1 = 120"
    by (rule iffD2 [OF conjunct1 [OF t1]]) code_simp
  have f2: "final_score_of toy_nlp ?r2 = 5"
    by (rule iffD2 [OF conjunct2 [OF t2]]) code_simp
  show ?thesis using e1 e2 f1 f2 by auto
qed

end
