(* ===== verification/App.thy ===== *)
theory App
  imports Checker
begin

text \<open>
  The Streamlit script of \<^verbatim>\<open>src/app.py\<close> and \<^verbatim>\<open>extract_text_from_pdf\<close>.  One
  run of the script reads the widget values (\<open>ui_input\<close>) and produces the
  sequence of elements it writes (\<open>ui_out\<close>).  The PDF library is a parameter
  \<open>pdf_reader\<close>: it gives the text of every page, or the message of the exception
  it raised.  The \<^verbatim>\<open>:.2f\<close> formatting of the similarity is a parameter
  \<open>fmt\<close>; the final score is printed with \<^verbatim>\<open>str\<close>.  An exception that escapes
  the checker is the element \<open>Exception\<close>, as Streamlit shows it.
\<close>

datatype ui_out =
    Title string
  | Write string
  | Error string
  | Warning string
  | Exception py_error

record ui_input =
  uploaded_file :: "string option"
  job_description :: string
  analyze_clicked :: bool

type_synonym pdf_reader = "string \<Rightarrow> string + string list"

definition extract_text_from_pdf :: "pdf_reader \<Rightarrow> string option \<Rightarrow> ui_out list \<times> string" where
  "extract_text_from_pdf pdf uploaded =
     (case uploaded of
        None \<Rightarrow> ([], [])
      | Some pdf_bytes \<Rightarrow>
          (case pdf pdf_bytes of
             Inl e \<Rightarrow> ([Error (''Error: Unable to read the uploaded file. '' @ e)], [])
           | Inr pages \<Rightarrow> ([], fold (\<lambda>page text. text @ page) pages [])))"

definition report :: "(real \<Rightarrow> string) \<Rightarrow> real \<times> int \<times> string list \<Rightarrow> ui_out list" where
  "report fmt result =
     (case result of (similarity_score, final_score, feedback) \<Rightarrow>
        [Write (''Matching Score: '' @ fmt similarity_score @ ''%''),
         Write (''Final Resume Score: '' @ py_str_int final_score @ ''/100'')] @
        (if feedback \<noteq> [] then Write ''Detailed suggestions to improve your resume:'' # map Write feedback
         else [Write ''Your resume matches well with the job description!'']))"

definition app_run ::
  "nlp \<Rightarrow> (string set \<Rightarrow> string list) \<Rightarrow> pdf_reader \<Rightarrow> (real \<Rightarrow> string) \<Rightarrow> ui_input \<Rightarrow> ui_out list" where
  "app_run nlp iter pdf fmt inp =
     Title ''ATS Resume Checker'' #
     (if \<not> analyze_clicked inp then []
      else if uploaded_file inp \<noteq> None \<and> job_description inp \<noteq> [] then
        (case extract_text_from_pdf pdf (uploaded_file inp) of (errors, resume_text) \<Rightarrow>
          errors @
          (if resume_text \<noteq> [] then
             (case ats_resume_checker nlp iter resume_text (job_description inp) of
                Inl e \<Rightarrow> [Exception e]
              | Inr result \<Rightarrow> report fmt result)
           else [Error ''Unable to read the uploaded file. Please check the file and try again.'']))
      else [Warning ''Please upload a resume and enter a job description.''])"

lemma fold_append_concat: "fold (\<lambda>page text. text @ page) pages acc = acc @ concat pages"
  by (induction pages arbitrary: acc) auto

lemma extract_text_from_pdf_Some:
  "extract_text_from_pdf pdf (Some b) =
     (case pdf b of Inl e \<Rightarrow> ([Error (''Error: Unable to read the uploaded file. '' @ e)], [])
                  | Inr pages \<Rightarrow> ([], concat pages))"
  by (simp add: extract_text_from_pdf_def fold_append_concat split: sum.splits)

lemma app_run_report:
  assumes "analyze_clicked inp" "uploaded_file inp = Some b" "job_description inp \<noteq> []"
    and "pdf b = Inr pages" "concat pages \<noteq> []"
    and "ats_resume_checker nlp iter (concat pages) (job_description inp) = Inr res"
  shows "app_run nlp iter pdf fmt inp = Title ''ATS Resume Checker'' # report fmt res"
  using assms by (simp add: app_run_def extract_text_from_pdf_Some)

text \<open>C19: when the PDF library fails on the uploaded file, the run shows the
  library's error and then the generic read error, and never evaluates the resume.\<close>

theorem app_run_pdf_failure:
  assumes "analyze_clicked inp" "uploaded_file inp = Some b" "job_description inp \<noteq> []"
    and "pdf b = Inl e"
  shows "app_run nlp iter pdf fmt inp =
     [Title ''ATS Resume Checker'', Error (''Error: Unable to read the uploaded file. '' @ e),
      Error ''Unable to read the uploaded file. Please check the file and try again.'']"
  using assms by (simp add: app_run_def extract_text_from_pdf_Some)

theorem app_run_pdf_failure_witness:
  "analyze_clicked \<lparr>uploaded_file = Some ''%PDF'', job_description = ''Manager'', analyze_clicked = True\<rparr> \<and>
   uploaded_file \<lparr>uploaded_file = Some ''%PDF'', job_description = ''Manager'', analyze_clicked = True\<rparr> = Some ''%PDF'' \<and>
   job_description \<lparr>uploaded_file = Some ''%PDF'', job_description = ''Manager'', analyze_clicked = True\<rparr> \<noteq> [] \<and>
   (\<lambda>_. Inl ''cannot open broken document'') ''%PDF'' = (Inl ''cannot open broken document'' :: string + string list) \<and>
   app_run toy_nlp sorted_list_of_set (\<lambda>_. Inl ''cannot open broken document'') (\<lambda>_. [])
     \<lparr>uploaded_file = Some ''%PDF'', job_description = ''Manager'', analyze_clicked = True\<rparr> =
   [Title ''ATS Resume Checker'', Error (''Error: Unable to read the uploaded file. '' @ ''cannot open broken document''),
    Error ''Unable to read the uploaded file. Please check the file and try again.'']"
proof -
  let ?inp = "\<lparr>uploaded_file = Some ''%PDF'', job_description = ''Manager'', analyze_clicked = True\<rparr>"
  let ?pdf = "(\<lambda>_. Inl ''cannot open broken document'') :: pdf_reader"
  have h1: "analyze_clicked ?inp" by simp
  have h2: "uploaded_file ?inp = Some ''%PDF''" by simp
  have h3: "job_description ?inp \<noteq> []" by simp
  have h4: "?pdf ''%PDF'' = Inl ''cannot open broken document''" by simp
  show ?thesis
    by (intro conjI h1 h2 h3 h4 app_run_pdf_failure [OF h1 h2 h3 h4])
qed

text \<open>C20: a run without an uploaded file or with an empty job description shows the
  title and the warning only.\<close>

theorem app_run_missing_input:
  assumes "analyze_clicked inp" "uploaded_file inp = None \<or> job_description inp = []"
  shows "app_run nlp iter pdf fmt inp =
     [Title ''ATS Resume Checker'', Warning ''Please upload a resume and enter a job description.'']"
  using assms by (auto simp: app_run_def)

theorem app_run_missing_input_witness:
  "analyze_clicked \<lparr>uploaded_file = None, job_description = ''Manager'', analyze_clicked = True\<rparr> \<and>
   (uploaded_file \<lparr>uploaded_file = None, job_description = ''Manager'', analyze_clicked = True\<rparr> = None \<or>
    job_description \<lparr>uploaded_file = None, job_description = ''Manager'', analyze_clicked = True\<rparr> = []) \<and>
   app_run toy_nlp sorted_list_of_set (\<lambda>_. Inr []) (\<lambda>_. [])
     \<lparr>uploaded_file = None, job_description = ''Manager'', analyze_clicked = True\<rparr> =
   [Title ''ATS Resume Checker'', Warning ''Please upload a resume and enter a job description.'']"
proof -
  let ?inp = "\<lparr>uploaded_file = None, job_description = ''Manager'', analyze_clicked = True\<rparr>"
  have h1: "analyze_clicked ?inp" by simp
  have h2: "uploaded_file ?inp = None \<or> job_description ?inp = []" by simp
  show ?thesis by (intro conjI h1 h2 app_run_missing_input [OF h1 h2])
qed

end
