(* ===== verification/Spec2Isabelle.thy ===== *)
theory Spec2Isabelle
  imports App
begin

text \<open>
  \<^bold>\<open>Verification development of the ATS resume checker\<close> (\<^verbatim>\<open>src/app.py\<close>).

  \<^bold>\<open>The program.\<close>  A Streamlit script reads a PDF resume and a job description.
  \<^verbatim>\<open>extract_text_from_pdf\<close> turns the PDF into text; \<^verbatim>\<open>ats_resume_checker\<close>
  normalises both texts with spaCy (\<^verbatim>\<open>preprocess_text\<close>), scores their TF-IDF
  cosine similarity with scikit-learn (\<^verbatim>\<open>calculate_similarity_tfidf\<close>), runs three
  analyzers on the raw resume (\<^verbatim>\<open>analyze_resume_structure\<close>,
  \<^verbatim>\<open>analyze_certifications\<close>, \<^verbatim>\<open>analyze_grammar\<close>) and the keyword advisor on
  both raw texts (\<^verbatim>\<open>suggest_improvements\<close> over \<^verbatim>\<open>extract_keywords\<close>), adds the
  three sub-scores into the final score and concatenates the feedback.  Every part is
  a pure function of its inputs; the only state is the widget values of one run.

  \<^bold>\<open>Theories and what they model.\<close>
  \<^item> \<open>Prelude\<close>: Python's \<^verbatim>\<open>str.lower\<close> (ASCII case mapping),
    \<^verbatim>\<open>str.capitalize\<close>, the substring test \<^verbatim>\<open>in\<close> (\<open>py_in\<close>, proved equal
    to \<open>sublist\<close>), \<^verbatim>\<open>str.join\<close>, \<^verbatim>\<open>str.split(sep)\<close> and \<^verbatim>\<open>str(int)\<close>; the
    error type \<open>py_error\<close>.
  \<^item> \<open>Nlp\<close>: the spaCy model of line 9 as an interface.  A model is any function
    \<open>nlp :: string \<Rightarrow> doc\<close>, a document being its list of sentences
    (\<^verbatim>\<open>doc.sents\<close>) of tokens with the attributes the code reads; \<open>span_text\<close>
    is \<^verbatim>\<open>str(span)\<close>; \<open>nlp_lossless\<close> is spaCy's guarantee that the
    tokens with their whitespace give back the text.  Every theorem over \<open>nlp\<close> holds for every model.  The
    concrete tagger \<open>toy_nlp\<close> only instantiates theorems in witnesses.
  \<^item> \<open>Structure\<close>: \<^verbatim>\<open>analyze_resume_structure\<close> (the section dict as the
    association list \<open>sections\<close>, the loop as \<open>structure_loop\<close>, the explanation
    chain as \<open>section_reason\<close>) and \<^verbatim>\<open>analyze_certifications\<close>.
  \<^item> \<open>Grammar\<close>: \<^verbatim>\<open>analyze_grammar\<close>, the loop over sentences as
    \<open>grammar_loop\<close>.
  \<^item> \<open>Normalizer\<close>: \<^verbatim>\<open>preprocess_text\<close>.
  \<^item> \<open>Keywords\<close>: \<^verbatim>\<open>extract_keywords\<close> and \<^verbatim>\<open>suggest_improvements\<close>.  The
    iteration order of a Python set, which decides \<^verbatim>\<open>list(missing_keywords)[:5]\<close>,
    is a parameter \<open>iter\<close>; theorems hold for every order that enumerates the set
    without repetition (\<open>py_iter_ok\<close>).
  \<^item> \<open>Similarity\<close>: \<^verbatim>\<open>calculate_similarity_tfidf\<close> with scikit-learn's
    \<^verbatim>\<open>TfidfVectorizer\<close> defaults (token pattern \<^verbatim>\<open>\b\w\w+\b\<close> as
    \<open>sk_tokenize\<close>, sorted vocabulary, empty-vocabulary \<^verbatim>\<open>ValueError\<close>, smoothed
    idf, l2 row normalisation as \<open>fit_transform\<close>) and
    \<^verbatim>\<open>cosine_similarity\<close>, over the reals.
  \<^item> \<open>Checker\<close>: \<^verbatim>\<open>ats_resume_checker\<close>, the error of the similarity as
    \<open>Inl\<close>.
  \<^item> \<open>App\<close>: \<^verbatim>\<open>extract_text_from_pdf\<close> and one run of the Streamlit script
    (\<open>app_run\<close>) from the widget values (\<open>ui_input\<close>) to the written elements
    (\<open>ui_out\<close>), the PDF library (\<open>pdf_reader\<close>) and the \<^verbatim>\<open>:.2f\<close> formatter
    as parameters.

  \<^bold>\<open>What is proved.\<close>
  \<^item> C1 to C5 and C23 (\<open>Structure\<close>): the structure score and feedback in closed
    form over the catalogue, the 0 to 100 range, the exact gain of adding a missing
    section name, monotonicity under appended text, the case-insensitivity of the
    structure and certification analyzers, and two feedback lines per missing section.
  \<^item> C6, C7, C26 (\<open>Grammar\<close>): the closed form with the strict forty-token
    threshold and the first three long sentences; the score and length bounds; and,
    for a model that reproduces its input (\<open>nlp_lossless\<close>), every quoted sentence
    occurs verbatim in the resume.
  \<^item> C8 (\<open>Normalizer\<close>): the blank-separated words of the normalized text are the
    lemmas of the non-stop, alphabetic tokens of the lowercased text, in order.
  \<^item> C9, C10 (\<open>Keywords\<close>): no advice exactly when the job keywords are resume
    keywords; otherwise the header, \<open>min 5 n\<close> distinct missing keywords and the
    closing line, for every iteration order.
  \<^item> C11 to C14, C24 (\<open>Similarity\<close>): the empty-vocabulary error condition;
    invariance under rewordings with the same term multiset; symmetry; 0 for disjoint
    term sets; and the refinement of the computation (sorted vocabulary, two l2
    normalisations, dot product) to the abstract cosine \<open>cosine_spec\<close> of the
    TF-IDF weight functions \<open>term_weight\<close> over the union of the term sets.
  \<^item> C15 to C18 (\<open>Checker\<close>): the final score and the analyzers' feedback do not
    depend on the job description (spec section 4.8), the failure condition of the whole
    evaluation, the 5 to 120 range of the final score, and for every model the exact
    conditions under which 120 and 5 are reached.
  \<^item> C19, C20, C25 (\<open>App\<close> and this theory): the messages on a PDF failure and on
    missing input, and the page layout of a successful run.
  \<^item> C21, C22 (this theory): the two scenarios of the specification (final score 55
    for the sample resume, for every model with short sentences; the empty resume, for
    every model and job description).

  \<^bold>\<open>Loops, bounds and fuel.\<close>  Every loop of the program iterates over a finite list
  (the section catalogue, the sentences, the pages, the keywords), so every loop is a
  structurally recursive \<^theory_text>\<open>fun\<close> or a \<open>map\<close>/\<open>fold\<close>; no fuel is needed.
  Python ints are \<open>int\<close>; the similarity is real-valued, the exact value that the
  floating-point computation approximates.  The similarity claims are chosen to hold of
  the floating-point program too: the error condition, the invariance under rewordings
  and the symmetry (the same operations on the same numbers), the exact 0 for disjoint
  term sets (all products are 0), and the refinement, which names the formula
  computed.  The range 0 to 100 and the value 100 for equal term multisets hold only in
  exact arithmetic (\<open>calculate_similarity_tfidf_exact_range\<close>): rounding gives
  100.00000000000003 for a two-term document compared with itself, so they are not
  claimed.

  \<^bold>\<open>Plan.\<close>  Modelled in this order: the analyzers (structure, certification,
  grammar), the normaliser and keyword advisor, the similarity, the orchestrator, the
  script.  Next: an abstract score breakdown (the record of spec section 3) with a
  refinement lemma for \<open>ats_resume_checker\<close>; keyword advice never naming a resume
  keyword; a well-formedness predicate on models (\<^verbatim>\<open>is_alpha\<close> agreeing with the
  token text) and the properties that need it.

  \<^bold>\<open>Not modelled.\<close>  The spaCy model itself (tokenizer, tagger, lemmatizer,
  sentence splitter) and PyMuPDF are external libraries: they are parameters.  The
  rendering of the Streamlit widgets and the float formatting are not modelled.
  Characters are bytes and case mapping is ASCII, so Python's Unicode case mapping of
  non-ASCII letters and Unicode word characters are outside the model.
\<close>

lemma sample_resume_structure:
  "analyze_resume_structure ''Experience: built systems. Skills: coding.'' =
     (45, missing_block ''contact information'' @ missing_block ''summary'' @
          missing_block ''education'' @ missing_block ''achievements'')"
  by code_simp

lemma sample_resume_certifications:
  "analyze_certifications ''Experience: built systems. Skills: coding.'' = (0, cert_block)"
  by code_simp

lemma empty_resume_structure:
  "analyze_resume_structure [] = (0, concat (map missing_block (map fst sections)))"
  by code_simp

lemma full_resume_scores:
  "final_score_of toy_nlp
     ''Contact information, summary, education, experience, skills, achievements. Certified.'' = 120"
  by code_simp

lemma full_resume_terms:
  "sk_tokenize (preprocess_text toy_nlp
     ''Contact information, summary, education, experience, skills, achievements. Certified.'') \<noteq> []"
  by code_simp

text \<open>C21: the specification's sample (resume
  \<^verbatim>\<open>Experience: built systems. Skills: coding.\<close>, a job asking for a manager with
  leadership and certification): for every model whose sentences of the resume have at
  most forty tokens and every set iteration order, a successful evaluation has final
  score 55 (experience 30 and skills 15, no certification, grammar 10), and its
  feedback is the blocks of the four missing sections in catalogue order, the
  certification block and the keyword advice.\<close>

theorem scenario_spec_example:
  assumes "\<forall>sent \<in> set (nlp ''Experience: built systems. Skills: coding.''). length sent \<le> 40"
  shows "case ats_resume_checker nlp iter ''Experience: built systems. Skills: coding.''
               ''Looking for a manager with leadership and certification.'' of
           Inl e \<Rightarrow> True
         | Inr (s, f, fb) \<Rightarrow>
             f = 55 \<and>
             fb = missing_block ''contact information'' @ missing_block ''summary'' @
                  missing_block ''education'' @ missing_block ''achievements'' @ cert_block @
                  suggest_improvements nlp iter ''Experience: built systems. Skills: coding.''
                    ''Looking for a manager with leadership and certification.''"
  using analyze_grammar_short [where nlp = nlp, OF assms]
  by (simp add: ats_resume_checker_eq final_score_of_def feedback_of_def sample_resume_structure
                sample_resume_certifications split: sum.splits)

theorem scenario_spec_example_witness:
  "(case ats_resume_checker toy_nlp sorted_list_of_set ''Experience: built systems. Skills: coding.''
               ''Looking for a manager with leadership and certification.'' of
      Inl e \<Rightarrow> True
    | Inr (s, f, fb) \<Rightarrow>
        f = 55 \<and>
        fb = missing_block ''contact information'' @ missing_block ''summary'' @
             missing_block ''education'' @ missing_block ''achievements'' @ cert_block @
             suggest_improvements toy_nlp sorted_list_of_set ''Experience: built systems. Skills: coding.''
               ''Looking for a manager with leadership and certification.'')"
proof -
  have h: "\<forall>sent \<in> set (toy_nlp ''Experience: built systems. Skills: coding.''). length sent \<le> 40"
    by code_simp
  show ?thesis
    by (rule scenario_spec_example [where nlp = toy_nlp and iter = sorted_list_of_set, OF h])
qed

text \<open>C22: the specification's empty resume: for a model that gives no sentence for
  the empty text, the evaluation fails only when the job description has no term
  either; otherwise the similarity is 0, the final score is 10 (grammar only) and the
  feedback is all six missing-section blocks, the certification block and the keyword
  advice.\<close>

theorem scenario_empty_resume:
  assumes "nlp [] = []"
  shows "case ats_resume_checker nlp iter [] j of
           Inl e \<Rightarrow> sk_tokenize (preprocess_text nlp j) = []
         | Inr (s, f, fb) \<Rightarrow>
             s = 0 \<and> f = 10 \<and>
             fb = concat (map missing_block (map fst sections)) @ cert_block @
                  suggest_improvements nlp iter [] j"
proof (cases "sk_tokenize (preprocess_text nlp j) = []")
  case True
  with assms show ?thesis
    by (simp add: ats_resume_checker_eq preprocess_text_empty_doc calculate_similarity_tfidf_Nil)
next
  case False
  then have ne: "sk_tokenize (preprocess_text nlp []) \<noteq> [] \<or> sk_tokenize (preprocess_text nlp j) \<noteq> []"
    by blast
  have "analyze_certifications [] = (0, cert_block)" by (simp add: analyze_certifications_def)
  moreover have "analyze_grammar nlp [] = (10, [])"
    using assms by (simp add: analyze_grammar_closed long_sentences_def)
  moreover have "calculate_similarity_tfidf (preprocess_text nlp []) (preprocess_text nlp j) = Inr 0"
    using calculate_similarity_tfidf_value [OF ne]
      similarity_rows_disjoint [of "sk_tokenize (preprocess_text nlp [])"] assms
    by (simp add: preprocess_text_empty_doc)
  ultimately show ?thesis
    by (simp add: ats_resume_checker_eq final_score_of_def feedback_of_def empty_resume_structure)
qed

theorem scenario_empty_resume_witness:
  "toy_nlp [] = [] \<and>
   (case ats_resume_checker toy_nlp sorted_list_of_set [] ''Manager'' of
      Inl e \<Rightarrow> sk_tokenize (preprocess_text toy_nlp ''Manager'') = []
    | Inr (s, f, fb) \<Rightarrow>
        s = 0 \<and> f = 10 \<and>
        fb = concat (map missing_block (map fst sections)) @ cert_block @
             suggest_improvements toy_nlp sorted_list_of_set [] ''Manager'')"
proof -
  have h: "toy_nlp [] = []" by code_simp
  show ?thesis
    by (intro conjI h scenario_empty_resume [where nlp = toy_nlp and iter = sorted_list_of_set, OF h])
qed

text \<open>C25: after a click with an uploaded PDF whose pages have text and a job
  description, a successful evaluation makes the page show the title, the matching
  score, the final score out of 100, and then either the suggestions header with one
  line per feedback line, or the message that the resume matches well.\<close>

theorem app_run_success:
  assumes "analyze_clicked inp" "uploaded_file inp = Some b" "job_description inp \<noteq> []"
    and "pdf b = Inr pages" "concat pages \<noteq> []"
    and "ats_resume_checker nlp iter (concat pages) (job_description inp) = Inr (s, f, fb)"
  shows "app_run nlp iter pdf fmt inp =
     [Title ''ATS Resume Checker'', Write (''Matching Score: '' @ fmt s @ ''%''),
      Write (''Final Resume Score: '' @ py_str_int f @ ''/100'')] @
     (if fb \<noteq> [] then Write ''Detailed suggestions to improve your resume:'' # map Write fb
      else [Write ''Your resume matches well with the job description!''])"
  using app_run_report [where pdf = pdf and b = b and nlp = nlp and iter = iter, OF assms]
  by (simp add: report_def)

theorem app_run_success_witness:
  "app_run toy_nlp sorted_list_of_set (\<lambda>b. Inr [b]) (\<lambda>_. ''50.00'')
     \<lparr>uploaded_file =
        Some ''Contact information, summary, education, experience, skills, achievements. Certified.'',
      job_description = ''Manager'', analyze_clicked = True\<rparr> =
   [Title ''ATS Resume Checker'', Write (''Matching Score: '' @ ''50.00'' @ ''%''),
    Write (''Final Resume Score: '' @ py_str_int 120 @ ''/100'')] @
   (if feedback_of toy_nlp sorted_list_of_set
         ''Contact information, summary, education, experience, skills, achievements. Certified.''
         ''Manager'' \<noteq> []
    then Write ''Detailed suggestions to improve your resume:'' #
         map Write (feedback_of toy_nlp sorted_list_of_set
           ''Contact information, summary, education, experience, skills, achievements. Certified.''
           ''Manager'')
    else [Write ''Your resume matches well with the job description!''])"
proof -
  let ?r = "''Contact information, summary, education, experience, skills, achievements. Certified.''"
  let ?inp = "\<lparr>uploaded_file = Some ?r, job_description = ''Manager'', analyze_clicked = True\<rparr>"
  obtain s where s:
    "calculate_similarity_tfidf (preprocess_text toy_nlp ?r) (preprocess_text toy_nlp ''Manager'') = Inr s"
    using calculate_similarity_tfidf_value full_resume_terms by blast
  have c: "concat [?r] = ?r" by (simp only: concat.simps append_Nil2)
  have h1: "analyze_clicked ?inp" by simp
  have h2: "uploaded_file ?inp = Some ?r" by simp
  have h3: "job_description ?inp \<noteq> []" by simp
  have h4: "(\<lambda>b. Inr [b] :: string + string list) ?r = Inr [?r]" by simp
  have h5: "concat [?r] \<noteq> []" unfolding c by simp
  have h6: "ats_resume_checker toy_nlp sorted_list_of_set (concat [?r]) (job_description ?inp) =
          Inr (s, 120, feedback_of toy_nlp sorted_list_of_set ?r ''Manager'')"
    unfolding c using s by (simp add: ats_resume_checker_eq full_resume_scores)
  show ?thesis
    using app_run_success [where pdf = "\<lambda>b. Inr [b]" and fmt = "\<lambda>_. ''50.00''",
                           OF h1 h2 h3 h4 h5 h6] by simp
qed

end
